theory Spec2Isabelle
  imports Complex_Main
begin

section \<open>Numbers, vectors and checked reads\<close>

text \<open>
  The sampler code of \<^verbatim>\<open>framework/scene_graph/components/animation.cpp\<close> computes on
  C++ \<^verbatim>\<open>float\<close>. A \<^verbatim>\<open>float\<close> is modelled by a \<^typ>\<open>real\<close> and every arithmetic
  operation by the exact operation: rounding, infinities and NaN are not represented. The
  one place where the control flow of the code depends on a NaN (the quotient 0/0 in the
  segment test of \<^verbatim>\<open>Animation::update\<close>) is written out in \<open>segment_step\<close>. The concrete
  inputs used below are small dyadic numbers, on which \<^verbatim>\<open>float\<close> arithmetic is exact (the
  time step 0.6 of the specification's scenario apart, which only has to exceed 0.5).

  \<^verbatim>\<open>size_t\<close> is taken to be 64 bits wide; unsigned arithmetic wraps.
\<close>

definition size_t :: "nat \<Rightarrow> nat" where
  "size_t n = n mod 2 ^ 64"

definition uint32_t :: "nat \<Rightarrow> nat" where
  "uint32_t n = n mod 2 ^ 32"

text \<open>\<^verbatim>\<open>std::numeric_limits<float>::max()\<close>: the largest finite \<^verbatim>\<open>float\<close>,
  \<open>(2 - 2^-23) * 2^127\<close>.\<close>

definition FLT_MAX :: real where
  "FLT_MAX = (2 ^ 24 - 1) * 2 ^ 104"

text \<open>\<^verbatim>\<open>std::numeric_limits<float>::min()\<close>: the smallest positive normalised
  \<^verbatim>\<open>float\<close>, \<open>2^-126\<close>.\<close>

definition FLT_MIN :: real where
  "FLT_MIN = 1 / 2 ^ 126"

datatype vec3 = Vec3 real real real

datatype vec4 = Vec4 real real real real

text \<open>A \<^verbatim>\<open>glm::quat\<close>, written with its components in the order x, y, z, w.\<close>

datatype quat = Quat real real real real

datatype error = OutOfBounds

text \<open>\<^verbatim>\<open>std::vector::operator[]\<close>: an index outside the vector is undefined behaviour,
  which the model reports as an error.\<close>

definition read_at :: "'a list \<Rightarrow> nat \<Rightarrow> error + 'a" where
  "read_at xs i = (if i < length xs then Inr (xs ! i) else Inl OutOfBounds)"

definition and_then :: "error + 'a \<Rightarrow> ('a \<Rightarrow> error + 'b) \<Rightarrow> error + 'b" where
  "and_then r f = (case r of Inl e \<Rightarrow> Inl e | Inr v \<Rightarrow> f v)"

fun collect :: "(error + 'a) list \<Rightarrow> error + 'a list" where
  "collect [] = Inr []"
| "collect (r # rs) = and_then r (\<lambda>v. and_then (collect rs) (\<lambda>vs. Inr (v # vs)))"

text \<open>The conversion of a \<^verbatim>\<open>glm::vec4\<close> to the \<^verbatim>\<open>glm::vec3\<close> that
  \<^verbatim>\<open>set_translation\<close> and \<^verbatim>\<open>set_scale\<close> take drops the fourth component.\<close>

fun vec3_of_vec4 :: "vec4 \<Rightarrow> vec3" where
  "vec3_of_vec4 (Vec4 x y z w) = Vec3 x y z"

text \<open>The field-wise copies \<^verbatim>\<open>q.x = v.x; q.y = v.y; q.z = v.z; q.w = v.w\<close>.\<close>

fun quat_of_vec4 :: "vec4 \<Rightarrow> quat" where
  "quat_of_vec4 (Vec4 x y z w) = Quat x y z w"

text \<open>Modelled from the spec: \<^verbatim>\<open>glm::mix\<close> is library code outside the repository; the
  spec calls it the component-wise linear interpolation between \<open>values[i]\<close> and
  \<open>values[i+1]\<close> using the fraction.\<close>

definition mix1 :: "real \<Rightarrow> real \<Rightarrow> real \<Rightarrow> real" where
  "mix1 x y a = x * (1 - a) + y * a"

fun mix :: "vec4 \<Rightarrow> vec4 \<Rightarrow> real \<Rightarrow> vec4" where
  "mix (Vec4 x1 y1 z1 w1) (Vec4 x2 y2 z2 w2) a =
     Vec4 (mix1 x1 x2 a) (mix1 y1 y2 a) (mix1 z1 z2 a) (mix1 w1 w2 a)"

fun quat_length :: "quat \<Rightarrow> real" where
  "quat_length (Quat x y z w) = sqrt (x * x + y * y + z * z + w * w)"

text \<open>Modelled from the spec: \<^verbatim>\<open>glm::normalize\<close> is library code outside the repository;
  the spec calls it unit normalization. A quaternion of length zero has no direction, and
  the library returns the identity rotation for it.\<close>

fun normalize_quat :: "quat \<Rightarrow> quat" where
  "normalize_quat (Quat x y z w) =
     (let len = quat_length (Quat x y z w) in
      if len \<le> 0 then Quat 0 0 0 1
      else Quat (x * (1 / len)) (y * (1 / len)) (z * (1 / len)) (w * (1 / len)))"

section \<open>The data model of \<^verbatim>\<open>animation.h\<close>\<close>

datatype PathType = TRANSLATION | ROTATION | SCALE

datatype InterpolationType = LINEAR | STEP | CUBICSPLINE

text \<open>A channel points to its scene node; the model names a node by a number, and the
  nodes' transforms live in a store \<open>nodes\<close> indexed by these numbers.\<close>

record AnimationChannel =
  path :: PathType
  samplerIndex :: nat
  node :: nat

record AnimationSampler =
  interpolation :: InterpolationType
  inputs :: "real list"
  outputsVec4 :: "vec4 list"
  outputs :: "real list"

text \<open>The field \<^verbatim>\<open>end\<close> is called \<open>end_time\<close> here, \<open>end\<close> being a keyword.\<close>

record Animation =
  name :: string
  current_time :: real
  animation_samplers :: "AnimationSampler list"
  animation_channels :: "AnimationChannel list"
  start :: real
  end_time :: real

text \<open>The constructor \<^verbatim>\<open>Animation::Animation(name)\<close> with the default member
  initialisers of the class.\<close>

definition Animation_init :: "string \<Rightarrow> Animation" where
  "Animation_init n =
     \<lparr>name = n, current_time = 0, animation_samplers = [], animation_channels = [],
      start = FLT_MAX, end_time = FLT_MIN\<rparr>"

text \<open>Modelled from the spec: the transform of a scene node belongs to the scene graph,
  outside the files at hand; the spec gives it the three setters
  \<^verbatim>\<open>set_translation(vec3)\<close>, \<^verbatim>\<open>set_rotation(quaternion)\<close> and \<^verbatim>\<open>set_scale(vec3)\<close>.\<close>

record Transform =
  tr_translation :: vec3
  tr_rotation :: quat
  tr_scale :: vec3

definition set_translation :: "vec3 \<Rightarrow> Transform \<Rightarrow> Transform" where
  "set_translation v tr = tr\<lparr>tr_translation := v\<rparr>"

definition set_rotation :: "quat \<Rightarrow> Transform \<Rightarrow> Transform" where
  "set_rotation q tr = tr\<lparr>tr_rotation := q\<rparr>"

definition set_scale :: "vec3 \<Rightarrow> Transform \<Rightarrow> Transform" where
  "set_scale v tr = tr\<lparr>tr_scale := v\<rparr>"

section \<open>\<^verbatim>\<open>AnimationSampler\<close>: evaluation of one segment\<close>

text \<open>
  One round of the loop of \<^verbatim>\<open>cubicSplineInterpolation\<close>: the component \<open>pt[i]\<close>. The
  keyframe \<open>k\<close> occupies \<open>3 * stride\<close> floats of \<open>outputs\<close>; the offsets are \<open>A = 0\<close>,
  \<open>V = stride * 1\<close> and \<open>B = stride * 2\<close>. All the index arithmetic is \<^verbatim>\<open>uint32_t\<close>. The
  last summand multiplies by \<open>m0\<close>, as the source does; \<open>m1\<close> is computed (its read of
  \<open>outputs\<close> happens) and not used.
\<close>

definition cubic_pt :: "real list \<Rightarrow> real \<Rightarrow> real \<Rightarrow> nat \<Rightarrow> nat \<Rightarrow> nat \<Rightarrow> nat \<Rightarrow> error + real" where
  "cubic_pt outs delta t current next stride i =
     (let A = 0; V = uint32_t (stride * 1); B = uint32_t (stride * 2);
          t2 = t ^ 2; t3 = t ^ 3
      in and_then (read_at outs (uint32_t (current + i + V))) (\<lambda>p0.
         and_then (read_at outs (uint32_t (current + i + A))) (\<lambda>a0.
         and_then (read_at outs (uint32_t (next + i + V))) (\<lambda>p1.
         and_then (read_at outs (uint32_t (next + i + B))) (\<lambda>b1.
           let m0 = delta * a0; m1 = delta * b1
           in Inr (((2 * t3 - 3 * t2 + 1) * p0) + ((t3 - 2 * t2 + t) * m0)
                   + ((- 2 * t3 + 3 * t2) * p1) + ((t3 - t2) * m0)))))))"

text \<open>The loop \<^verbatim>\<open>for (i = 0; i < stride; i++)\<close> for a given fraction \<open>t\<close>. The result is the list
  of the components \<open>pt[0], ..., pt[stride - 1]\<close> that the loop writes; a \<^verbatim>\<open>glm::vec4\<close> has
  four components, so writing a fifth is out of bounds.\<close>

definition cubic_loop :: "real list \<Rightarrow> real \<Rightarrow> real \<Rightarrow> nat \<Rightarrow> nat \<Rightarrow> nat \<Rightarrow> error + real list" where
  "cubic_loop outs delta t current next stride =
     (if 4 < stride then Inl OutOfBounds
      else collect (map (cubic_pt outs delta t current next stride) [0..<stride]))"

definition cubicSplineInterpolation :: "AnimationSampler \<Rightarrow> nat \<Rightarrow> real \<Rightarrow> nat \<Rightarrow> error + real list" where
  "cubicSplineInterpolation s index time stride =
     and_then (read_at (inputs s) (size_t (index + 1))) (\<lambda>t1.
     and_then (read_at (inputs s) index) (\<lambda>t0.
       let delta = t1 - t0;
           t = (time - t0) / delta;
           current = uint32_t (size_t (index * stride * 3));
           next = uint32_t (size_t (size_t (index + 1) * stride * 3))
       in cubic_loop (outputs s) delta t current next stride))"

text \<open>The first three components of the result, as \<^verbatim>\<open>set_translation\<close> and
  \<^verbatim>\<open>set_scale\<close> receive them.\<close>

definition vec3_of_pt :: "real list \<Rightarrow> vec3" where
  "vec3_of_pt pt = Vec3 (pt ! 0) (pt ! 1) (pt ! 2)"

definition quat_of_pt :: "real list \<Rightarrow> quat" where
  "quat_of_pt pt = Quat (pt ! 0) (pt ! 1) (pt ! 2) (pt ! 3)"

text \<open>The fraction of the LINEAR branches:
  \<^verbatim>\<open>std::max(0.0f, time - inputs[index]) / (inputs[index + 1] - inputs[index])\<close>.\<close>

definition linear_u :: "AnimationSampler \<Rightarrow> nat \<Rightarrow> real \<Rightarrow> error + real" where
  "linear_u s index time =
     and_then (read_at (inputs s) index) (\<lambda>t0.
     and_then (read_at (inputs s) (size_t (index + 1))) (\<lambda>t1.
       Inr (max 0 (time - t0) / (t1 - t0))))"

definition translate :: "AnimationSampler \<Rightarrow> nat \<Rightarrow> real \<Rightarrow> Transform \<Rightarrow> error + Transform" where
  "translate s index time tr =
     (case interpolation s of
        LINEAR \<Rightarrow>
          and_then (linear_u s index time) (\<lambda>u.
          and_then (read_at (outputsVec4 s) index) (\<lambda>a.
          and_then (read_at (outputsVec4 s) (size_t (index + 1))) (\<lambda>b.
            Inr (set_translation (vec3_of_vec4 (mix a b u)) tr))))
      | STEP \<Rightarrow>
          and_then (read_at (outputsVec4 s) index) (\<lambda>a.
            Inr (set_translation (vec3_of_vec4 a) tr))
      | CUBICSPLINE \<Rightarrow>
          and_then (cubicSplineInterpolation s index time 3) (\<lambda>pt.
            Inr (set_translation (vec3_of_pt pt) tr)))"

definition scale :: "AnimationSampler \<Rightarrow> nat \<Rightarrow> real \<Rightarrow> Transform \<Rightarrow> error + Transform" where
  "scale s index time tr =
     (case interpolation s of
        LINEAR \<Rightarrow>
          and_then (linear_u s index time) (\<lambda>u.
          and_then (read_at (outputsVec4 s) index) (\<lambda>a.
          and_then (read_at (outputsVec4 s) (size_t (index + 1))) (\<lambda>b.
            Inr (set_scale (vec3_of_vec4 (mix a b u)) tr))))
      | STEP \<Rightarrow>
          and_then (read_at (outputsVec4 s) index) (\<lambda>a.
            Inr (set_scale (vec3_of_vec4 a) tr))
      | CUBICSPLINE \<Rightarrow>
          and_then (cubicSplineInterpolation s index time 3) (\<lambda>pt.
            Inr (set_scale (vec3_of_pt pt) tr)))"

text \<open>
  \<^verbatim>\<open>AnimationSampler::rotate\<close> (the name \<open>rotate\<close> is taken by a list function).
  \<^verbatim>\<open>glm::slerp\<close> is library code outside the repository; it is the parameter \<open>slerp\<close>, and
  what follows holds for every function in its place. The STEP branch passes the
  keyframe to \<^verbatim>\<open>set_rotation\<close> as it is; the other two normalise.
\<close>

definition rotate_sampler ::
  "(quat \<Rightarrow> quat \<Rightarrow> real \<Rightarrow> quat) \<Rightarrow> AnimationSampler \<Rightarrow> nat \<Rightarrow> real \<Rightarrow> Transform \<Rightarrow> error + Transform" where
  "rotate_sampler slerp s index time tr =
     (case interpolation s of
        LINEAR \<Rightarrow>
          and_then (linear_u s index time) (\<lambda>u.
          and_then (read_at (outputsVec4 s) index) (\<lambda>a.
          and_then (read_at (outputsVec4 s) (size_t (index + 1))) (\<lambda>b.
            let q1 = quat_of_vec4 a; q2 = quat_of_vec4 b
            in Inr (set_rotation (normalize_quat (slerp q1 q2 u)) tr))))
      | STEP \<Rightarrow>
          and_then (read_at (outputsVec4 s) index) (\<lambda>a.
            Inr (set_rotation (quat_of_vec4 a) tr))
      | CUBICSPLINE \<Rightarrow>
          and_then (cubicSplineInterpolation s index time 4) (\<lambda>rot.
            Inr (set_rotation (normalize_quat (quat_of_pt rot)) tr)))"

section \<open>\<^verbatim>\<open>Animation::update\<close>\<close>

text \<open>The \<^verbatim>\<open>switch\<close> on the channel's path: the sampler writes the transform of the
  channel's node.\<close>

definition apply_channel ::
  "(quat \<Rightarrow> quat \<Rightarrow> real \<Rightarrow> quat) \<Rightarrow> AnimationSampler \<Rightarrow> AnimationChannel \<Rightarrow> nat \<Rightarrow> real \<Rightarrow>
     (nat \<Rightarrow> Transform) \<Rightarrow> error + (nat \<Rightarrow> Transform)" where
  "apply_channel slerp s ch i time nodes =
     and_then
       (case path ch of
          TRANSLATION \<Rightarrow> translate s i time (nodes (node ch))
        | SCALE \<Rightarrow> scale s i time (nodes (node ch))
        | ROTATION \<Rightarrow> rotate_sampler slerp s i time (nodes (node ch)))
       (\<lambda>tr. Inr (nodes(node ch := tr)))"

text \<open>
  The body of the inner loop, for the segment \<open>i\<close>. The \<^verbatim>\<open>&&\<close> reads \<open>inputs[i + 1]\<close> only
  when its left side holds. When the two time stamps are equal and the segment test
  holds, the \<^verbatim>\<open>float\<close> quotient \<open>u\<close> is 0/0, a NaN, and \<^verbatim>\<open>u <= 1.0f\<close> is false; the model
  says so with the test \<open>t1 - t0 \<noteq> 0\<close>. (In the loop \<open>i + 1\<close> cannot wrap, \<open>i\<close> being below
  the bound.) The local flag \<^verbatim>\<open>updated\<close> is never read and is left out.
\<close>

definition segment_step ::
  "(quat \<Rightarrow> quat \<Rightarrow> real \<Rightarrow> quat) \<Rightarrow> AnimationSampler \<Rightarrow> AnimationChannel \<Rightarrow> real \<Rightarrow> nat \<Rightarrow>
     (nat \<Rightarrow> Transform) \<Rightarrow> error + (nat \<Rightarrow> Transform)" where
  "segment_step slerp s ch ct i nodes =
     and_then (read_at (inputs s) i) (\<lambda>t0.
       if ct \<ge> t0 then
         and_then (read_at (inputs s) (i + 1)) (\<lambda>t1.
           if ct \<le> t1 then
             (let u = max 0 (ct - t0) / (t1 - t0)
              in if t1 - t0 \<noteq> 0 \<and> u \<le> 1 then apply_channel slerp s ch i ct nodes
                 else Inr nodes)
           else Inr nodes)
       else Inr nodes)"

text \<open>The inner loop \<^verbatim>\<open>for (size_t i = 0; i < inputs.size() - 1; i++)\<close>, from \<open>i\<close> on;
  \<open>bound\<close> is the value of \<^verbatim>\<open>inputs.size() - 1\<close>.\<close>

function segment_loop ::
  "(quat \<Rightarrow> quat \<Rightarrow> real \<Rightarrow> quat) \<Rightarrow> AnimationSampler \<Rightarrow> AnimationChannel \<Rightarrow> real \<Rightarrow> nat \<Rightarrow> nat \<Rightarrow>
     (nat \<Rightarrow> Transform) \<Rightarrow> error + (nat \<Rightarrow> Transform)" where
  "segment_loop slerp s ch ct bound i nodes =
     (if i < bound then
        (case segment_step slerp s ch ct i nodes of
           Inl e \<Rightarrow> Inl e
         | Inr nodes' \<Rightarrow> segment_loop slerp s ch ct bound (i + 1) nodes')
      else Inr nodes)"
  by pat_completeness auto
termination
  by (relation "measure (\<lambda>(slerp, s, ch, ct, bound, i, nodes). bound - i)") auto

text \<open>The body of the outer loop, for one channel. \<^verbatim>\<open>inputs.size() - 1\<close> is unsigned: for
  an empty \<open>inputs\<close> it wraps to \<open>2^64 - 1\<close>.\<close>

definition update_channel ::
  "(quat \<Rightarrow> quat \<Rightarrow> real \<Rightarrow> quat) \<Rightarrow> Animation \<Rightarrow> AnimationChannel \<Rightarrow> (nat \<Rightarrow> Transform) \<Rightarrow>
     error + (nat \<Rightarrow> Transform)" where
  "update_channel slerp a ch nodes =
     and_then (read_at (animation_samplers a) (samplerIndex ch)) (\<lambda>s.
       if length (inputs s) > length (outputsVec4 s) then Inr nodes
       else segment_loop slerp s ch (current_time a)
              (size_t (length (inputs s) + 2 ^ 64 - 1)) 0 nodes)"

fun channel_loop ::
  "(quat \<Rightarrow> quat \<Rightarrow> real \<Rightarrow> quat) \<Rightarrow> Animation \<Rightarrow> AnimationChannel list \<Rightarrow> (nat \<Rightarrow> Transform) \<Rightarrow>
     error + (nat \<Rightarrow> Transform)" where
  "channel_loop slerp a [] nodes = Inr nodes"
| "channel_loop slerp a (ch # chs) nodes =
     and_then (update_channel slerp a ch nodes) (channel_loop slerp a chs)"

text \<open>\<^verbatim>\<open>Animation::update(delta_time)\<close>: the channels are evaluated at the current time,
  then the clock advances and wraps.\<close>

definition update ::
  "(quat \<Rightarrow> quat \<Rightarrow> real \<Rightarrow> quat) \<Rightarrow> Animation \<Rightarrow> (nat \<Rightarrow> Transform) \<Rightarrow> real \<Rightarrow>
     error + (Animation \<times> (nat \<Rightarrow> Transform))" where
  "update slerp a nodes delta_time =
     and_then (channel_loop slerp a (animation_channels a) nodes) (\<lambda>nodes'.
       let t = current_time a + delta_time
       in Inr (a\<lparr>current_time := (if t > end_time a then 0 else t)\<rparr>, nodes'))"

section \<open>The statements of the specification, and the inputs used below\<close>

text \<open>
  The definitions of this section follow the words of the specification, not the code;
  they are what the code is compared with.

  A keyframe \<open>k\<close> of a cubic track of stride \<open>stride\<close> holds an in-tangent, a value and an
  out-tangent, \<open>3 * stride\<close> floats in this order.
\<close>

definition spec_in_tangent :: "real list \<Rightarrow> nat \<Rightarrow> nat \<Rightarrow> nat \<Rightarrow> real" where
  "spec_in_tangent outs stride k j = outs ! (k * (3 * stride) + j)"

definition spec_value :: "real list \<Rightarrow> nat \<Rightarrow> nat \<Rightarrow> nat \<Rightarrow> real" where
  "spec_value outs stride k j = outs ! (k * (3 * stride) + stride + j)"

definition spec_out_tangent :: "real list \<Rightarrow> nat \<Rightarrow> nat \<Rightarrow> nat \<Rightarrow> real" where
  "spec_out_tangent outs stride k j = outs ! (k * (3 * stride) + 2 * stride + j)"

text \<open>The value of keyframe \<open>k\<close> of a cubic track of stride 3 as a vector, and of a cubic
  track of stride 4 as a quaternion.\<close>

definition spec_vec3 :: "real list \<Rightarrow> nat \<Rightarrow> vec3" where
  "spec_vec3 outs k = Vec3 (spec_value outs 3 k 0) (spec_value outs 3 k 1) (spec_value outs 3 k 2)"

definition spec_quat :: "real list \<Rightarrow> nat \<Rightarrow> quat" where
  "spec_quat outs k =
     Quat (spec_value outs 4 k 0) (spec_value outs 4 k 1) (spec_value outs 4 k 2)
       (spec_value outs 4 k 3)"

text \<open>\<open>fraction(i, time) = max(0, time - times[i]) / (times[i+1] - times[i])\<close>.\<close>

definition spec_fraction :: "real list \<Rightarrow> nat \<Rightarrow> real \<Rightarrow> real" where
  "spec_fraction ts i time = max 0 (time - ts ! i) / (ts ! (i + 1) - ts ! i)"

text \<open>\<open>result = (2t3 - 3t2 + 1)*p0 + (t3 - 2t2 + t)*m0 + (-2t3 + 3t2)*p1 + (t3 - t2)*m1\<close>.\<close>

definition spec_hermite :: "real \<Rightarrow> real \<Rightarrow> real \<Rightarrow> real \<Rightarrow> real \<Rightarrow> real" where
  "spec_hermite t p0 m0 p1 m1 =
     (2 * t ^ 3 - 3 * t ^ 2 + 1) * p0 + (t ^ 3 - 2 * t ^ 2 + t) * m0
     + (- 2 * t ^ 3 + 3 * t ^ 2) * p1 + (t ^ 3 - t ^ 2) * m1"

text \<open>The CUBIC evaluation of the specification: \<open>p0 = value[i]\<close>,
  \<open>m0 = delta * out_tangent[i]\<close>, \<open>p1 = value[i+1]\<close>, \<open>m1 = delta * in_tangent[i+1]\<close>.\<close>

definition spec_cubic :: "AnimationSampler \<Rightarrow> nat \<Rightarrow> real \<Rightarrow> nat \<Rightarrow> real list" where
  "spec_cubic s i time stride =
     (let delta = inputs s ! (i + 1) - inputs s ! i;
          t = spec_fraction (inputs s) i time
      in map (\<lambda>j. spec_hermite t
                     (spec_value (outputs s) stride i j)
                     (delta * spec_out_tangent (outputs s) stride i j)
                     (spec_value (outputs s) stride (i + 1) j)
                     (delta * spec_in_tangent (outputs s) stride (i + 1) j))
           [0..<stride])"

text \<open>\<^verbatim>\<open>cubicSplineInterpolation\<close> as it would be with the fraction of the specification:
  the same function, with the numerator of \<open>t\<close> clamped at zero.\<close>

definition clamped_cubicSplineInterpolation ::
  "AnimationSampler \<Rightarrow> nat \<Rightarrow> real \<Rightarrow> nat \<Rightarrow> error + real list" where
  "clamped_cubicSplineInterpolation s index time stride =
     and_then (read_at (inputs s) (size_t (index + 1))) (\<lambda>t1.
     and_then (read_at (inputs s) index) (\<lambda>t0.
       let delta = t1 - t0;
           t = max 0 (time - t0) / delta;
           current = uint32_t (size_t (index * stride * 3));
           next = uint32_t (size_t (size_t (index + 1) * stride * 3))
       in cubic_loop (outputs s) delta t current next stride))"

text \<open>The stride that \<^verbatim>\<open>translate\<close>, \<^verbatim>\<open>scale\<close> and \<^verbatim>\<open>rotate\<close> pass to
  \<^verbatim>\<open>cubicSplineInterpolation\<close>.\<close>

definition stride_of :: "PathType \<Rightarrow> nat" where
  "stride_of p = (case p of ROTATION \<Rightarrow> 4 | TRANSLATION \<Rightarrow> 3 | SCALE \<Rightarrow> 3)"

text \<open>What \<^verbatim>\<open>update\<close> needs of a channel to stay inside its vectors: the sampler exists, it
  has a time stamp, and when it is a cubic sampler that the guard lets through, its
  \<open>outputs\<close> hold three groups of \<open>stride\<close> floats for every time stamp.\<close>

definition sampler_ok :: "AnimationSampler \<Rightarrow> AnimationChannel \<Rightarrow> bool" where
  "sampler_ok s ch \<longleftrightarrow>
     inputs s \<noteq> [] \<and>
     (interpolation s = CUBICSPLINE \<and> length (inputs s) \<le> length (outputsVec4 s) \<longrightarrow>
        3 * stride_of (path ch) * length (inputs s) \<le> length (outputs s))"

definition channel_ok :: "Animation \<Rightarrow> AnimationChannel \<Rightarrow> bool" where
  "channel_ok a ch \<longleftrightarrow>
     samplerIndex ch < length (animation_samplers a) \<and>
     sampler_ok (animation_samplers a ! samplerIndex ch) ch"

text \<open>A function to stand for \<^verbatim>\<open>glm::slerp\<close> in the closed examples: the component-wise
  blend of two quaternions.\<close>

fun lerp_quat :: "quat \<Rightarrow> quat \<Rightarrow> real \<Rightarrow> quat" where
  "lerp_quat (Quat x1 y1 z1 w1) (Quat x2 y2 z2 w2) a =
     Quat (mix1 x1 x2 a) (mix1 y1 y2 a) (mix1 z1 z2 a) (mix1 w1 w2 a)"

text \<open>The scenario of the specification: one LINEAR translation track with the time
  stamps 0 and 1 and the values (0,0,0) and (10,0,0), on a clip that ends at 1.\<close>

definition scenario_sampler :: AnimationSampler where
  "scenario_sampler =
     \<lparr>interpolation = LINEAR, inputs = [0, 1],
      outputsVec4 = [Vec4 0 0 0 0, Vec4 10 0 0 0], outputs = []\<rparr>"

definition scenario_channel :: AnimationChannel where
  "scenario_channel = \<lparr>path = TRANSLATION, samplerIndex = 0, node = 0\<rparr>"

definition clip_of :: "AnimationSampler \<Rightarrow> AnimationChannel \<Rightarrow> real \<Rightarrow> Animation" where
  "clip_of s ch t =
     (Animation_init ''clip'')
       \<lparr>current_time := t, animation_samplers := [s], animation_channels := [ch],
        start := 0, end_time := 1\<rparr>"

definition scenario_clip :: Animation where
  "scenario_clip = clip_of scenario_sampler scenario_channel 0"

definition scenario_nodes :: "nat \<Rightarrow> Transform" where
  "scenario_nodes =
     (\<lambda>n. \<lparr>tr_translation = Vec3 1 2 3, tr_rotation = Quat 0 0 0 1, tr_scale = Vec3 1 1 1\<rparr>)"

text \<open>A cubic track of stride 3 with two keyframes: all of keyframe 0 is zero, keyframe 1
  has both tangents (8,0,0) and the value zero.\<close>

definition tangent_sampler :: AnimationSampler where
  "tangent_sampler =
     \<lparr>interpolation = CUBICSPLINE, inputs = [0, 1], outputsVec4 = [],
      outputs = [0, 0, 0, 0, 0, 0, 0, 0, 0, 8, 0, 0, 0, 0, 0, 8, 0, 0]\<rparr>"

text \<open>A cubic track of stride 3 with two keyframes and no tangents: keyframe 0 has the
  value (1,0,0), keyframe 1 the value zero.\<close>

definition value_sampler :: AnimationSampler where
  "value_sampler =
     \<lparr>interpolation = CUBICSPLINE, inputs = [0, 1], outputsVec4 = [],
      outputs = [0, 0, 0, 1, 0, 0, 0, 0, 0, 0, 0, 0, 0, 0, 0, 0, 0, 0]\<rparr>"

text \<open>A STEP track with three keyframes, at the times 0, 1 and 2.\<close>

definition step_sampler :: AnimationSampler where
  "step_sampler =
     \<lparr>interpolation = STEP, inputs = [0, 1, 2],
      outputsVec4 = [Vec4 1 0 0 0, Vec4 2 0 0 0, Vec4 3 0 0 0], outputs = []\<rparr>"

text \<open>A LINEAR rotation track whose two keyframes are not unit quaternions.\<close>

definition rotation_sampler :: AnimationSampler where
  "rotation_sampler =
     \<lparr>interpolation = LINEAR, inputs = [0, 1],
      outputsVec4 = [Vec4 0 0 0 2, Vec4 0 0 0 4], outputs = []\<rparr>"

text \<open>A cubic rotation track (stride 4) with two keyframes and no tangents: keyframe 0 has
  the value (0,0,0,2), keyframe 1 the value (0,0,0,1).\<close>

definition cubic_rotation_sampler :: AnimationSampler where
  "cubic_rotation_sampler =
     \<lparr>interpolation = CUBICSPLINE, inputs = [0, 1], outputsVec4 = [],
      outputs = [0, 0, 0, 0, 0, 0, 0, 2, 0, 0, 0, 0, 0, 0, 0, 0, 0, 0, 0, 1, 0, 0, 0, 0]\<rparr>"

text \<open>A cubic track of stride 3 with 477218591 keyframes at the times 0, 1, 2, ...: its
  \<open>outputs\<close> hold \<open>2^32 + 23\<close> floats, zero below the index \<open>2^32\<close> and one from there on. The
  floats of keyframe 477218589 start at the index \<open>2^32 + 5\<close>. (The time stamps stand for any
  strictly increasing sequence of this length; only their order matters.)\<close>

definition long_sampler :: AnimationSampler where
  "long_sampler =
     \<lparr>interpolation = CUBICSPLINE, inputs = map real [0..<477218591], outputsVec4 = [],
      outputs = replicate 4294967296 0 @ replicate 23 1\<rparr>"

text \<open>A LINEAR track with two time stamps and three values.\<close>

definition extra_values_sampler :: AnimationSampler where
  "extra_values_sampler =
     \<lparr>interpolation = LINEAR, inputs = [0, 1],
      outputsVec4 = [Vec4 7 0 0 0, Vec4 8 0 0 0, Vec4 9 0 0 0], outputs = []\<rparr>"

text \<open>A LINEAR track with three time stamps and two values.\<close>

definition missing_values_sampler :: AnimationSampler where
  "missing_values_sampler =
     \<lparr>interpolation = LINEAR, inputs = [0, 1, 2],
      outputsVec4 = [Vec4 7 0 0 0, Vec4 8 0 0 0], outputs = []\<rparr>"

text \<open>A cubic track whose \<open>outputsVec4\<close> is as long as its \<open>inputs\<close> and whose \<open>outputs\<close> is
  empty, and a track with no keyframe at all.\<close>

definition short_outputs_sampler :: AnimationSampler where
  "short_outputs_sampler =
     \<lparr>interpolation = CUBICSPLINE, inputs = [0, 1],
      outputsVec4 = [Vec4 0 0 0 0, Vec4 0 0 0 0], outputs = []\<rparr>"

definition empty_sampler :: AnimationSampler where
  "empty_sampler = \<lparr>interpolation = LINEAR, inputs = [], outputsVec4 = [], outputs = []\<rparr>"

section \<open>Auxiliary facts\<close>

lemma size_t_le: "size_t n \<le> n"
  by (simp add: size_t_def)

lemma uint32_t_le: "uint32_t n \<le> n"
  by (simp add: uint32_t_def)

lemma read_at_ok: "i < length xs \<Longrightarrow> read_at xs i = Inr (xs ! i)"
  by (simp add: read_at_def)

lemma read_at_size_t_ok: "i < length xs \<Longrightarrow> \<exists>v. read_at xs (size_t i) = Inr v"
  using size_t_le [of i] by (simp add: read_at_def)

lemma read_at_uint32_t_ok: "i < length xs \<Longrightarrow> \<exists>v. read_at xs (uint32_t i) = Inr v"
  using uint32_t_le [of i] by (simp add: read_at_def)

lemma and_then_Inr [simp]: "and_then (Inr v) f = f v"
  by (simp add: and_then_def)

lemma and_then_Inl [simp]: "and_then (Inl e) f = Inl e"
  by (simp add: and_then_def)

lemma error_is_OutOfBounds: "(e :: error) = OutOfBounds"
  by (cases e) simp

lemma collect_ok: "(\<And>r. r \<in> set rs \<Longrightarrow> \<exists>v. r = Inr v) \<Longrightarrow> \<exists>vs. collect rs = Inr vs"
proof (induction rs)
  case Nil
  show ?case by simp
next
  case (Cons r rs)
  obtain v where v: "r = Inr v" using Cons.prems [of r] by auto
  obtain vs where vs: "collect rs = Inr vs" using Cons.IH Cons.prems by auto
  show ?case by (simp add: v vs)
qed

lemma collect_map_ok:
  assumes "\<And>i. i < n \<Longrightarrow> \<exists>v. f i = Inr v"
  shows "\<exists>vs. collect (map f [0..<n]) = Inr vs"
proof (rule collect_ok)
  fix r assume "r \<in> set (map f [0..<n])"
  then obtain i where "i < n" "r = f i" by auto
  then show "\<exists>v. r = Inr v" using assms by simp
qed

lemma cubic_pt_ok:
  assumes "current + i + stride < length outs" and "next + i + 2 * stride < length outs"
  shows "\<exists>v. cubic_pt outs delta t current next stride i = Inr v"
proof -
  have a: "uint32_t (current + i + uint32_t (stride * 1)) < length outs"
    using assms(1) uint32_t_le [of "current + i + uint32_t (stride * 1)"] uint32_t_le [of "stride * 1"]
    by simp
  have b: "uint32_t (current + i + 0) < length outs"
    using assms(1) uint32_t_le [of "current + i + 0"] by simp
  have c: "uint32_t (next + i + uint32_t (stride * 1)) < length outs"
    using assms(2) uint32_t_le [of "next + i + uint32_t (stride * 1)"] uint32_t_le [of "stride * 1"]
    by simp
  have d: "uint32_t (next + i + uint32_t (stride * 2)) < length outs"
    using assms(2) uint32_t_le [of "next + i + uint32_t (stride * 2)"] uint32_t_le [of "stride * 2"]
    by simp
  show ?thesis
    using a b c d by (simp add: cubic_pt_def Let_def read_at_def)
qed

lemma cubicSplineInterpolation_ok:
  assumes "index + 1 < length (inputs s)" and "stride \<le> 4"
    and "3 * stride * length (inputs s) \<le> length (outputs s)"
  shows "\<exists>pt. cubicSplineInterpolation s index time stride = Inr pt"
proof -
  obtain t1 where t1: "read_at (inputs s) (size_t (index + 1)) = Inr t1"
    using read_at_size_t_ok assms(1) by blast
  have t0: "read_at (inputs s) index = Inr (inputs s ! index)"
    using assms(1) by (simp add: read_at_def)
  let ?current = "uint32_t (size_t (index * stride * 3))"
  let ?next = "uint32_t (size_t (size_t (index + 1) * stride * 3))"
  have n1: "?next \<le> (index + 1) * stride * 3"
  proof -
    have "?next \<le> size_t (index + 1) * stride * 3"
      using uint32_t_le size_t_le le_trans by blast
    also have "\<dots> \<le> (index + 1) * stride * 3"
      by (intro mult_le_mono1 size_t_le)
    finally show ?thesis .
  qed
  have "(index + 2) * (3 * stride) \<le> length (inputs s) * (3 * stride)"
    using assms(1) by (intro mult_le_mono1) simp
  then have n2: "(index + 1) * stride * 3 + 3 * stride \<le> length (outputs s)"
    using assms(3) by (simp add: algebra_simps)
  have c1: "?current \<le> index * stride * 3"
    using uint32_t_le size_t_le le_trans by blast
  have ok1: "?next + 3 * stride \<le> length (outputs s)"
    using n1 n2 by simp
  have "\<exists>v. cubic_pt (outputs s) delta t ?current ?next stride i = Inr v" if "i < stride" for i delta t
  proof -
    have "?current + i + stride < length (outputs s)"
      using c1 n2 that by (simp add: algebra_simps)
    moreover have "?next + i + 2 * stride < length (outputs s)"
      using ok1 that by simp
    ultimately show ?thesis by (rule cubic_pt_ok)
  qed
  then have "\<exists>pt. cubic_loop (outputs s) delta t ?current ?next stride = Inr pt" for delta t
    using assms(2) collect_map_ok [of stride "cubic_pt (outputs s) delta t ?current ?next stride"]
    by (simp add: cubic_loop_def)
  then show ?thesis
    using t1 t0 by (simp add: cubicSplineInterpolation_def Let_def)
qed


lemma linear_u_ok:
  assumes "index + 1 < length (inputs s)"
  shows "\<exists>u. linear_u s index time = Inr u"
proof -
  obtain t1 where t1: "read_at (inputs s) (size_t (index + 1)) = Inr t1"
    using read_at_size_t_ok assms by blast
  have t0: "read_at (inputs s) index = Inr (inputs s ! index)"
    using assms by (simp add: read_at_def)
  show ?thesis using t1 t0 by (simp add: linear_u_def)
qed

lemma apply_channel_ok:
  assumes "i + 1 < length (inputs s)" and "length (inputs s) \<le> length (outputsVec4 s)"
    and "sampler_ok s ch"
  shows "\<exists>nodes'. apply_channel slerp s ch i time nodes = Inr nodes'"
proof -
  obtain u where u: "linear_u s i time = Inr u"
    using linear_u_ok assms(1) by blast
  have a: "read_at (outputsVec4 s) i = Inr (outputsVec4 s ! i)"
    using assms(1,2) by (simp add: read_at_def)
  obtain b where b: "read_at (outputsVec4 s) (size_t (i + 1)) = Inr b"
    using read_at_size_t_ok [of "i + 1" "outputsVec4 s"] assms(1,2) by auto
  have c: "\<exists>pt. cubicSplineInterpolation s i time (stride_of (path ch)) = Inr pt"
    if "interpolation s = CUBICSPLINE"
    using that assms by (intro cubicSplineInterpolation_ok) (auto simp: sampler_ok_def stride_of_def split: PathType.splits)
  show ?thesis
  proof (cases "interpolation s")
    case LINEAR
    then show ?thesis using u a b
      by (cases "path ch") (simp_all add: apply_channel_def translate_def scale_def rotate_sampler_def Let_def)
  next
    case STEP
    then show ?thesis using a
      by (cases "path ch") (simp_all add: apply_channel_def translate_def scale_def rotate_sampler_def)
  next
    case CUBICSPLINE
    then obtain pt where "cubicSplineInterpolation s i time (stride_of (path ch)) = Inr pt"
      using c by blast
    then show ?thesis using CUBICSPLINE
      by (cases "path ch") (simp_all add: apply_channel_def translate_def scale_def rotate_sampler_def stride_of_def)
  qed
qed

lemma segment_step_ok:
  assumes "i + 1 < length (inputs s)" and "length (inputs s) \<le> length (outputsVec4 s)"
    and "sampler_ok s ch"
  shows "\<exists>nodes'. segment_step slerp s ch ct i nodes = Inr nodes'"
proof -
  have t0: "read_at (inputs s) i = Inr (inputs s ! i)"
    and t1: "read_at (inputs s) (i + 1) = Inr (inputs s ! (i + 1))"
    using assms(1) by (simp_all add: read_at_def)
  show ?thesis
    using apply_channel_ok [OF assms, of slerp ct nodes] t0 t1
    by (simp add: segment_step_def Let_def)
qed

lemma segment_loop_ok:
  assumes "bound < length (inputs s)" and "length (inputs s) \<le> length (outputsVec4 s)"
    and "sampler_ok s ch"
  shows "\<exists>nodes'. segment_loop slerp s ch ct bound i nodes = Inr nodes'"
  using assms
proof (induction slerp s ch ct bound i nodes rule: segment_loop.induct)
  case (1 slerp s ch ct bound i nodes)
  show ?case
  proof (cases "i < bound")
    case True
    then obtain n1 where n1: "segment_step slerp s ch ct i nodes = Inr n1"
      using segment_step_ok [of i s ch slerp ct nodes] "1.prems" by auto
    show ?thesis
      using "1.IH" [OF True n1] "1.prems" True n1 by simp
  next
    case False
    then show ?thesis by simp
  qed
qed

lemma bound_le: "0 < n \<Longrightarrow> size_t (n + 2 ^ 64 - 1) < n"
proof -
  assume a: "0 < n"
  have "n + 2 ^ 64 - 1 = (n - 1) + 1 * 2 ^ 64" using a by simp
  then have "size_t (n + 2 ^ 64 - 1) = (n - 1) mod 2 ^ 64"
    unfolding size_t_def by (metis mod_mult_self1)
  also have "\<dots> \<le> n - 1" by simp
  finally show ?thesis using a by simp
qed

lemma update_channel_ok:
  assumes "channel_ok a ch"
  shows "\<exists>nodes'. update_channel slerp a ch nodes = Inr nodes'"
proof -
  let ?s = "animation_samplers a ! samplerIndex ch"
  have s: "read_at (animation_samplers a) (samplerIndex ch) = Inr ?s"
    using assms by (simp add: channel_ok_def read_at_def)
  have ok: "sampler_ok ?s ch" using assms by (simp add: channel_ok_def)
  show ?thesis
  proof (cases "length (inputs ?s) > length (outputsVec4 ?s)")
    case True
    then show ?thesis using s by (simp add: update_channel_def)
  next
    case False
    have "size_t (length (inputs ?s) + 2 ^ 64 - 1) < length (inputs ?s)"
      using ok by (intro bound_le) (simp add: sampler_ok_def)
    then obtain n' where "segment_loop slerp ?s ch (current_time a)
        (size_t (length (inputs ?s) + 2 ^ 64 - 1)) 0 nodes = Inr n'"
      using segment_loop_ok [of _ ?s ch] False ok by (meson not_less)
    then show ?thesis using s False by (simp add: update_channel_def)
  qed
qed

lemma channel_loop_ok:
  assumes "\<And>ch. ch \<in> set chs \<Longrightarrow> channel_ok a ch"
  shows "\<exists>nodes'. channel_loop slerp a chs nodes = Inr nodes'"
  using assms
proof (induction chs arbitrary: nodes)
  case Nil
  show ?case by simp
next
  case (Cons ch chs)
  obtain n1 where n1: "update_channel slerp a ch nodes = Inr n1"
    using update_channel_ok [of a ch slerp nodes] Cons.prems by auto
  show ?case using Cons.IH [of n1] Cons.prems n1 by simp
qed

lemma update_channel_empty:
  assumes "samplerIndex ch < length (animation_samplers a)"
    and "inputs (animation_samplers a ! samplerIndex ch) = []"
    and "outputsVec4 (animation_samplers a ! samplerIndex ch) = []"
  shows "update_channel slerp a ch nodes = Inl OutOfBounds"
proof -
  let ?s = "animation_samplers a ! samplerIndex ch"
  have s: "read_at (animation_samplers a) (samplerIndex ch) = Inr ?s"
    using assms(1) by (simp add: read_at_def)
  have b: "size_t (length (inputs ?s) + 2 ^ 64 - 1) = 2 ^ 64 - 1"
    using assms(2) by (simp add: size_t_def)
  have st: "segment_step slerp ?s ch (current_time a) 0 nodes = Inl OutOfBounds"
    using assms(2) by (simp add: segment_step_def read_at_def)
  show ?thesis
    using s assms(2,3) st by (simp add: update_channel_def size_t_def)
qed

lemma channel_loop_fails:
  assumes "ch \<in> set chs" and "\<And>nodes. update_channel slerp a ch nodes = Inl OutOfBounds"
  shows "channel_loop slerp a chs nodes = Inl OutOfBounds"
  using assms(1)
proof (induction chs arbitrary: nodes)
  case Nil
  then show ?case by simp
next
  case (Cons c chs)
  show ?case
  proof (cases "update_channel slerp a c nodes")
    case (Inl e)
    then show ?thesis by (simp add: error_is_OutOfBounds [of e])
  next
    case (Inr n1)
    then have "c \<noteq> ch" using assms(2) [of nodes] by auto
    then have "ch \<in> set chs" using Cons.prems by simp
    then show ?thesis using Cons.IH Inr by simp
  qed
qed

declare segment_loop.simps [simp del]

lemma bound_eq: "0 < n \<Longrightarrow> n \<le> 2 ^ 64 \<Longrightarrow> size_t (n + 2 ^ 64 - 1) = n - 1"
proof -
  assume a: "0 < n" "n \<le> 2 ^ 64"
  have "n + 2 ^ 64 - 1 = (n - 1) + 1 * 2 ^ 64" using a by simp
  then have "size_t (n + 2 ^ 64 - 1) = (n - 1) mod 2 ^ 64" unfolding size_t_def by (metis mod_mult_self1)
  then show ?thesis using a by simp
qed

lemma segment_loop_step:
  "i < bound \<Longrightarrow> segment_loop slerp s ch ct bound i nodes =
     and_then (segment_step slerp s ch ct i nodes) (segment_loop slerp s ch ct bound (i + 1))"
  by (subst segment_loop.simps) (auto simp: and_then_def split: sum.splits)

lemma segment_loop_done:
  "\<not> i < bound \<Longrightarrow> segment_loop slerp s ch ct bound i nodes = Inr nodes"
  by (subst segment_loop.simps) simp

lemma segment_loop_idle:
  assumes "\<And>j n. i \<le> j \<Longrightarrow> j < bound \<Longrightarrow> segment_step slerp s ch ct j n = Inr n"
  shows "segment_loop slerp s ch ct bound i nodes = Inr nodes"
  using assms
proof (induction "bound - i" arbitrary: i)
  case 0
  then show ?case by (simp add: segment_loop_done)
next
  case (Suc d)
  then have lt: "i < bound" by simp
  have "segment_loop slerp s ch ct bound (i + 1) nodes = Inr nodes"
    using Suc.hyps(2) Suc.prems by (intro Suc.hyps(1)) simp_all
  then show ?case
    using Suc.prems [of i nodes] lt by (simp add: segment_loop_step)
qed

lemma segment_loop_skip:
  assumes "\<And>j n. i0 \<le> j \<Longrightarrow> j < i \<Longrightarrow> segment_step slerp s ch ct j n = Inr n"
    and "i0 \<le> i" and "i \<le> bound"
  shows "segment_loop slerp s ch ct bound i0 nodes = segment_loop slerp s ch ct bound i nodes"
  using assms
proof (induction "i - i0" arbitrary: i0)
  case 0
  then show ?case by simp
next
  case (Suc d)
  then have lt: "i0 < i" by simp
  have "segment_loop slerp s ch ct bound (i0 + 1) nodes = segment_loop slerp s ch ct bound i nodes"
    using Suc.hyps(2) Suc.prems lt by (intro Suc.hyps(1)) simp_all
  then show ?case
    using Suc.prems(1) [of i0 nodes] lt Suc.prems(3) by (simp add: segment_loop_step)
qed

lemma segment_step_before:
  assumes "sorted_wrt (<) (inputs s)" and "k < length (inputs s)" and "j + 1 < k"
  shows "segment_step slerp s ch (inputs s ! k) j n = Inr n"
proof -
  have "inputs s ! (j + 1) < inputs s ! k"
    using sorted_wrt_nth_less [OF assms(1), of "j + 1" k] assms(2,3) by simp
  then show ?thesis
    using assms(2,3) by (simp add: segment_step_def read_at_def Let_def)
qed

lemma segment_step_after:
  assumes "sorted_wrt (<) (inputs s)" and "k < j" and "j < length (inputs s)"
  shows "segment_step slerp s ch (inputs s ! k) j n = Inr n"
proof -
  have "inputs s ! k < inputs s ! j"
    using sorted_wrt_nth_less [OF assms(1), of k j] assms(2,3) by simp
  then show ?thesis
    using assms(3) by (simp add: segment_step_def read_at_def)
qed

lemma segment_step_upper:
  assumes "sorted_wrt (<) (inputs s)" and "i + 1 < length (inputs s)"
  shows "segment_step slerp s ch (inputs s ! (i + 1)) i n =
         apply_channel slerp s ch i (inputs s ! (i + 1)) n"
proof -
  have "inputs s ! i < inputs s ! (i + 1)"
    using sorted_wrt_nth_less [OF assms(1), of i "i + 1"] assms(2) by simp
  then show ?thesis
    using assms(2) by (simp add: segment_step_def read_at_def Let_def)
qed

lemma segment_step_lower:
  assumes "sorted_wrt (<) (inputs s)" and "i + 1 < length (inputs s)"
  shows "segment_step slerp s ch (inputs s ! i) i n = apply_channel slerp s ch i (inputs s ! i) n"
proof -
  have "inputs s ! i < inputs s ! (i + 1)"
    using sorted_wrt_nth_less [OF assms(1), of i "i + 1"] assms(2) by simp
  then show ?thesis
    using assms(2) by (simp add: segment_step_def read_at_def Let_def)
qed

lemma apply_channel_overwrite:
  assumes "apply_channel slerp s ch i t nodes = Inr n1"
  shows "apply_channel slerp s ch j t' n1 = apply_channel slerp s ch j t' nodes"
proof (cases "path ch")
  case TRANSLATION
  then show ?thesis using assms
    by (auto simp: apply_channel_def translate_def and_then_def set_translation_def
        split: InterpolationType.splits sum.splits)
next
  case ROTATION
  then show ?thesis using assms
    by (auto simp: apply_channel_def rotate_sampler_def and_then_def set_rotation_def Let_def
        split: InterpolationType.splits sum.splits)
next
  case SCALE
  then show ?thesis using assms
    by (auto simp: apply_channel_def scale_def and_then_def set_scale_def
        split: InterpolationType.splits sum.splits)
qed

lemma size_t_small: "n < 2 ^ 64 \<Longrightarrow> size_t n = n"
  by (simp add: size_t_def)

lemma quat_length_normalize: "quat_length (normalize_quat q) = 1"
proof (cases q)
  case (Quat x y z w)
  define n where "n = x * x + y * y + z * z + w * w"
  define r where "r = 1 / sqrt n"
  show ?thesis
  proof (cases "sqrt n \<le> 0")
    case True
    then show ?thesis using Quat by (simp add: n_def)
  next
    case False
    then have pos: "0 < n" by (simp add: not_le)
    have "r * r = 1 / n"
      using pos by (simp add: r_def)
    moreover have "(x * r) * (x * r) + (y * r) * (y * r) + (z * r) * (z * r) + (w * r) * (w * r)
        = n * (r * r)"
      by (simp add: n_def algebra_simps)
    ultimately have "(x * r) * (x * r) + (y * r) * (y * r) + (z * r) * (z * r) + (w * r) * (w * r) = 1"
      using pos by simp
    then have "quat_length (Quat (x * r) (y * r) (z * r) (w * r)) = 1"
      by simp
    moreover have "normalize_quat q = Quat (x * r) (y * r) (z * r) (w * r)"
      using Quat False by (simp add: Let_def n_def r_def)
    ultimately show ?thesis by simp
  qed
qed

lemma mix_0: "mix a b 0 = a"
  by (cases a; cases b) (simp add: mix1_def)

lemma mix_1: "mix a b 1 = b"
  by (cases a; cases b) (simp add: mix1_def)

lemma linear_u_lower:
  assumes "index + 1 < length (inputs s)" and "length (inputs s) \<le> 2 ^ 64"
  shows "linear_u s index (inputs s ! index) = Inr 0"
proof -
  have "size_t (index + 1) = index + 1" using assms by (intro size_t_small) simp
  then show ?thesis using assms(1) by (simp add: linear_u_def read_at_def)
qed

lemma linear_u_upper:
  assumes "index + 1 < length (inputs s)" and "length (inputs s) \<le> 2 ^ 64"
    and "inputs s ! index < inputs s ! (index + 1)"
  shows "linear_u s index (inputs s ! (index + 1)) = Inr 1"
proof -
  have "size_t (index + 1) = index + 1" using assms by (intro size_t_small) simp
  then show ?thesis using assms(1,3) by (simp add: linear_u_def read_at_def)
qed

lemma collect_map_Inr:
  assumes "\<And>i. i < n \<Longrightarrow> f i = Inr (g i)"
  shows "collect (map f [0..<n]) = Inr (map g [0..<n])"
proof -
  have "collect (map f xs) = Inr (map g xs)" if "\<And>i. i \<in> set xs \<Longrightarrow> f i = Inr (g i)" for xs
    using that by (induction xs) simp_all
  from this [of "[0..<n]"] show ?thesis using assms by simp
qed

lemma uint32_t_small: "n < 2 ^ 32 \<Longrightarrow> uint32_t n = n"
  by (simp add: uint32_t_def)

lemma cubic_pt_value:
  assumes "current + i + stride < length outs" and "next + i + stride * 2 < length outs"
    and "current + i + stride < 2 ^ 32" and "next + i + stride * 2 < 2 ^ 32"
  shows "cubic_pt outs delta 0 current next stride i = Inr (outs ! (current + i + stride))"
    and "cubic_pt outs delta 1 current next stride i = Inr (outs ! (next + i + stride))"
proof -
  have st: "uint32_t stride = stride" "uint32_t (stride * 2) = stride * 2"
    using assms(3,4) by (simp_all add: uint32_t_small)
  have ix: "uint32_t (current + i + stride) = current + i + stride"
    "uint32_t (current + i) = current + i"
    "uint32_t (next + i + stride) = next + i + stride"
    "uint32_t (next + i + stride * 2) = next + i + stride * 2"
    using assms(3,4) by (simp_all add: uint32_t_small)
  have rd: "read_at outs (current + i + stride) = Inr (outs ! (current + i + stride))"
    "read_at outs (current + i) = Inr (outs ! (current + i))"
    "read_at outs (next + i + stride) = Inr (outs ! (next + i + stride))"
    "read_at outs (next + i + stride * 2) = Inr (outs ! (next + i + stride * 2))"
    using assms(1,2) by (simp_all add: read_at_def)
  show "cubic_pt outs delta 0 current next stride i = Inr (outs ! (current + i + stride))"
    by (simp add: cubic_pt_def Let_def st ix rd)
  show "cubic_pt outs delta 1 current next stride i = Inr (outs ! (next + i + stride))"
    by (simp add: cubic_pt_def Let_def st ix rd)
qed

lemma cubic_boundary:
  assumes ix: "index + 1 < length (inputs s)" and inc: "inputs s ! index < inputs s ! (index + 1)"
    and st: "stride \<le> 4"
    and len: "3 * stride * length (inputs s) \<le> length (outputs s)"
      "3 * stride * (index + 2) \<le> 2 ^ 32"
    and n64: "length (inputs s) \<le> 2 ^ 64"
  shows "cubicSplineInterpolation s index (inputs s ! index) stride =
           Inr (map (spec_value (outputs s) stride index) [0..<stride])"
    and "cubicSplineInterpolation s index (inputs s ! (index + 1)) stride =
           Inr (map (spec_value (outputs s) stride (index + 1)) [0..<stride])"
proof -
  have sz: "size_t (index + 1) = index + 1" using ix n64 by (intro size_t_small) simp
  have "(index + 2) * (3 * stride) \<le> length (inputs s) * (3 * stride)"
    using ix by (intro mult_le_mono1) simp
  then have top: "(index + 1) * stride * 3 + 3 * stride \<le> length (outputs s)"
    using len(1) by (simp add: algebra_simps)
  have small: "(index + 1) * stride * 3 < 2 ^ 32"
  proof (cases "stride = 0")
    case True
    then show ?thesis by simp
  next
    case False
    then have "(index + 1) * stride * 3 < (index + 1) * stride * 3 + 3 * stride" by simp
    then show ?thesis using len(2) by (simp add: algebra_simps)
  qed
  have small': "index * stride * 3 < 2 ^ 32"
    using small by (simp add: algebra_simps)
  have cur: "uint32_t (size_t (index * stride * 3)) = index * stride * 3"
    using small' by (simp only: size_t_def uint32_t_def) simp
  have nxt: "uint32_t (size_t ((index + 1) * stride * 3)) = (index + 1) * stride * 3"
    using small by (simp only: size_t_def uint32_t_def) simp
  have rd: "read_at (inputs s) (index + 1) = Inr (inputs s ! (index + 1))"
    "read_at (inputs s) index = Inr (inputs s ! index)"
    using ix by (simp_all add: read_at_def)
  have lo: "cubic_pt (outputs s) delta 0 (index * stride * 3) ((index + 1) * stride * 3) stride i =
      Inr (spec_value (outputs s) stride index i)" if "i < stride" for i delta
  proof -
    have "index * stride * 3 + i + stride < length (outputs s)"
      "(index + 1) * stride * 3 + i + stride * 2 < length (outputs s)"
      using that top by (simp_all add: algebra_simps)
    moreover have "index * stride * 3 + i + stride < 2 ^ 32"
      "(index + 1) * stride * 3 + i + stride * 2 < 2 ^ 32"
      using that len(2) by (simp_all add: algebra_simps)
    moreover have "index * stride * 3 + i + stride = index * (3 * stride) + stride + i"
      by simp
    ultimately show ?thesis
      using cubic_pt_value(1) [of "index * stride * 3" i stride "outputs s" "(index + 1) * stride * 3" delta]
      by (simp only: spec_value_def)
  qed
  have hi: "cubic_pt (outputs s) delta 1 (index * stride * 3) ((index + 1) * stride * 3) stride i =
      Inr (spec_value (outputs s) stride (index + 1) i)" if "i < stride" for i delta
  proof -
    have "index * stride * 3 + i + stride < length (outputs s)"
      "(index + 1) * stride * 3 + i + stride * 2 < length (outputs s)"
      using that top by (simp_all add: algebra_simps)
    moreover have "index * stride * 3 + i + stride < 2 ^ 32"
      "(index + 1) * stride * 3 + i + stride * 2 < 2 ^ 32"
      using that len(2) by (simp_all add: algebra_simps)
    moreover have "(index + 1) * stride * 3 + i + stride = (index + 1) * (3 * stride) + stride + i"
      by simp
    ultimately show ?thesis
      using cubic_pt_value(2) [of "index * stride * 3" i stride "outputs s" "(index + 1) * stride * 3" delta]
      by (simp only: spec_value_def)
  qed
  have one: "(inputs s ! (index + 1) - inputs s ! index) / (inputs s ! (index + 1) - inputs s ! index) = 1"
    using inc by simp
  have zero: "(inputs s ! index - inputs s ! index) / (inputs s ! (index + 1) - inputs s ! index) = 0"
    by simp
  have unfold: "cubicSplineInterpolation s index time stride =
      cubic_loop (outputs s) (inputs s ! (index + 1) - inputs s ! index)
        ((time - inputs s ! index) / (inputs s ! (index + 1) - inputs s ! index))
        (index * stride * 3) ((index + 1) * stride * 3) stride" for time
    by (simp only: cubicSplineInterpolation_def sz rd and_then_Inr Let_def cur nxt)
  have loop: "cubic_loop (outputs s) delta t (index * stride * 3) ((index + 1) * stride * 3) stride =
      collect (map (cubic_pt (outputs s) delta t (index * stride * 3) ((index + 1) * stride * 3) stride)
        [0..<stride])" for delta t
    using st by (simp add: cubic_loop_def)
  show "cubicSplineInterpolation s index (inputs s ! index) stride =
           Inr (map (spec_value (outputs s) stride index) [0..<stride])"
    by (simp only: unfold zero loop collect_map_Inr [of stride _ "spec_value (outputs s) stride index", OF lo])
  show "cubicSplineInterpolation s index (inputs s ! (index + 1)) stride =
           Inr (map (spec_value (outputs s) stride (index + 1)) [0..<stride])"
    by (simp only: unfold one loop collect_map_Inr [of stride _ "spec_value (outputs s) stride (index + 1)", OF hi])
qed

section \<open>The claims\<close>

lemmas fixtures =
  scenario_sampler_def scenario_channel_def scenario_clip_def scenario_nodes_def clip_of_def
  Animation_init_def tangent_sampler_def value_sampler_def step_sampler_def
  extra_values_sampler_def missing_values_sampler_def short_outputs_sampler_def
  empty_sampler_def rotation_sampler_def cubic_rotation_sampler_def

lemmas evaluation = read_at_def size_t_def uint32_t_def Let_def

lemma upt_3: "[0..<3] = [0, 1, 2]"
  by (simp add: upt_rec)

lemma first_tick:
  "update slerp scenario_clip scenario_nodes (1 / 2) =
     Inr (scenario_clip\<lparr>current_time := 1 / 2\<rparr>,
          scenario_nodes(0 := set_translation (Vec3 0 0 0) (scenario_nodes 0)))"
  by (simp add: update_def update_channel_def fixtures segment_loop.simps segment_step_def
      apply_channel_def translate_def linear_u_def mix1_def evaluation)

lemma second_tick:
  "update slerp (scenario_clip\<lparr>current_time := 1 / 2\<rparr>)
       (scenario_nodes(0 := set_translation (Vec3 0 0 0) (scenario_nodes 0))) (6 / 10) =
     Inr (scenario_clip\<lparr>current_time := 0\<rparr>,
          scenario_nodes(0 := set_translation (Vec3 5 0 0) (scenario_nodes 0)))"
  by (simp add: update_def update_channel_def fixtures segment_loop.simps segment_step_def
      apply_channel_def translate_def linear_u_def mix1_def evaluation set_translation_def)

text \<open>
  Claim C1: in CUBIC mode every output component is the Hermite formula with
  \<open>m0 = delta * out_tangent[i]\<close> and \<open>m1 = delta * in_tangent[i+1]\<close>, the last term
  \<open>(t3 - t2)\<close> being multiplied by \<open>m1\<close>.

  The code multiplies the last term by \<open>m0\<close>. On the track \<open>tangent_sampler\<close>, where
  keyframe 0 has zero tangents and keyframe 1 has the tangents (8,0,0), the formula of the
  claim gives the first component \<open>-1\<close> at the time 1/2, and the code gives 0.
\<close>

theorem cubic_last_term_uses_m0:
  "cubicSplineInterpolation tangent_sampler 0 (1 / 2) 3 = Inr [0, 0, 0]
   \<and> translate tangent_sampler 0 (1 / 2) (scenario_nodes 0) =
       Inr (set_translation (Vec3 0 0 0) (scenario_nodes 0))
   \<and> spec_cubic tangent_sampler 0 (1 / 2) 3 = [- 1, 0, 0]"
proof (intro conjI)
  show run: "cubicSplineInterpolation tangent_sampler 0 (1 / 2) 3 = Inr [0, 0, 0]"
    by (simp add: cubicSplineInterpolation_def cubic_loop_def cubic_pt_def tangent_sampler_def
        evaluation upt_3)
  have "interpolation tangent_sampler = CUBICSPLINE"
    by (simp add: tangent_sampler_def)
  then show "translate tangent_sampler 0 (1 / 2) (scenario_nodes 0) =
      Inr (set_translation (Vec3 0 0 0) (scenario_nodes 0))"
    by (simp add: translate_def run vec3_of_pt_def)
  show "spec_cubic tangent_sampler 0 (1 / 2) 3 = [- 1, 0, 0]"
    by (simp add: spec_cubic_def spec_hermite_def spec_fraction_def spec_in_tangent_def
        spec_value_def spec_out_tangent_def tangent_sampler_def upt_3 power2_eq_square
        power3_eq_cube)
qed

text \<open>
  Claim C2, as amended: a ROTATION evaluation in LINEAR or CUBIC mode writes a quaternion
  of magnitude 1; in STEP mode it writes the keyframe as it is stored, whatever its
  magnitude.
\<close>

theorem rotation_normalised:
  assumes "rotate_sampler slerp s index time tr = Inr tr'"
  shows "(interpolation s \<noteq> STEP \<longrightarrow> quat_length (tr_rotation tr') = 1)
       \<and> (interpolation s = STEP \<longrightarrow>
            (\<exists>v. read_at (outputsVec4 s) index = Inr v \<and> tr_rotation tr' = quat_of_vec4 v))"
  using assms
  by (cases "interpolation s")
    (auto simp: rotate_sampler_def and_then_def set_rotation_def Let_def quat_length_normalize
      split: sum.splits)


theorem rotation_normalised_witness:
  "rotate_sampler lerp_quat rotation_sampler 0 0 (scenario_nodes 0) =
     Inr (set_rotation (Quat 0 0 0 1) (scenario_nodes 0))
   \<and> quat_length (tr_rotation (set_rotation (Quat 0 0 0 1) (scenario_nodes 0))) = 1"
proof -
  have run: "rotate_sampler lerp_quat rotation_sampler 0 0 (scenario_nodes 0) =
      Inr (set_rotation (Quat 0 0 0 1) (scenario_nodes 0))"
    by (simp add: rotate_sampler_def linear_u_def fixtures evaluation mix1_def)
  have "interpolation rotation_sampler \<noteq> STEP"
    by (simp add: rotation_sampler_def)
  then show ?thesis
    using rotation_normalised [OF run] run by blast
qed

text \<open>
  Claim C2 as stated fails in STEP mode: the keyframe (2,0,0,0) of \<open>step_sampler\<close> is
  written as it is, and its magnitude is 2.
\<close>

theorem step_rotation_counterexample:
  "rotate_sampler lerp_quat step_sampler 1 1 (scenario_nodes 0) =
     Inr (set_rotation (Quat 2 0 0 0) (scenario_nodes 0))
   \<and> quat_length (Quat 2 0 0 0) = 2"
proof
  show "rotate_sampler lerp_quat step_sampler 1 1 (scenario_nodes 0) =
     Inr (set_rotation (Quat 2 0 0 0) (scenario_nodes 0))"
    by (simp add: rotate_sampler_def fixtures evaluation)
  have "sqrt (2 * 2) = (2 :: real)" by (simp only: real_sqrt_abs2)
  then show "quat_length (Quat 2 0 0 0) = 2" by simp
qed

text \<open>
  Claim C3, as amended: a track with more time stamps than entries of \<open>outputsVec4\<close> is
  skipped by the per-tick update, which writes nothing for its channel.
\<close>

theorem malformed_track_skipped:
  assumes "read_at (animation_samplers a) (samplerIndex ch) = Inr s"
    and "length (inputs s) > length (outputsVec4 s)"
  shows "update_channel slerp a ch nodes = Inr nodes"
  using assms by (simp add: update_channel_def)


theorem malformed_track_skipped_witness:
  "update_channel lerp_quat (clip_of missing_values_sampler scenario_channel 0) scenario_channel
     scenario_nodes = Inr scenario_nodes"
  using malformed_track_skipped [of "clip_of missing_values_sampler scenario_channel 0"
      scenario_channel missing_values_sampler lerp_quat scenario_nodes]
  by (simp add: fixtures read_at_def)

text \<open>
  Claim C3 as stated fails in the other direction: the track \<open>extra_values_sampler\<close> has two
  time stamps and three values, and the update evaluates it and writes (7,0,0).
\<close>

theorem extra_values_counterexample:
  "update_channel lerp_quat (clip_of extra_values_sampler scenario_channel 0) scenario_channel
     scenario_nodes =
     Inr (scenario_nodes(0 := set_translation (Vec3 7 0 0) (scenario_nodes 0)))
   \<and> tr_translation (scenario_nodes 0) = Vec3 1 2 3"
  by (simp add: update_channel_def fixtures segment_loop.simps segment_step_def
      apply_channel_def translate_def linear_u_def mix1_def evaluation)

text \<open>
  Claim C4, as amended: each tick evaluates the channels at the current time and then
  advances the clock. On the scenario, \<open>update(0.5)\<close> writes the translation (0,0,0) and
  leaves the clock at 0.5; a further \<open>update(0.6)\<close> writes (5,0,0) and resets the clock
  to 0.
\<close>

theorem scenario_two_ticks:
  "update slerp scenario_clip scenario_nodes (1 / 2) =
     Inr (scenario_clip\<lparr>current_time := 1 / 2\<rparr>,
          scenario_nodes(0 := set_translation (Vec3 0 0 0) (scenario_nodes 0)))
   \<and> update slerp (scenario_clip\<lparr>current_time := 1 / 2\<rparr>)
       (scenario_nodes(0 := set_translation (Vec3 0 0 0) (scenario_nodes 0))) (6 / 10) =
     Inr (scenario_clip\<lparr>current_time := 0\<rparr>,
          scenario_nodes(0 := set_translation (Vec3 5 0 0) (scenario_nodes 0)))"
  using first_tick second_tick by simp

text \<open>
  Claim C4 as stated fails: the single call \<open>update(0.5)\<close> on the fresh clip writes the
  translation (0,0,0), the value at the time 0, and not (5,0,0).
\<close>

theorem first_tick_counterexample:
  "update lerp_quat scenario_clip scenario_nodes (1 / 2) =
     Inr (scenario_clip\<lparr>current_time := 1 / 2\<rparr>,
          scenario_nodes(0 := set_translation (Vec3 0 0 0) (scenario_nodes 0)))
   \<and> tr_translation (set_translation (Vec3 0 0 0) (scenario_nodes 0)) \<noteq> Vec3 5 0 0"
  using first_tick [of lerp_quat] by (simp add: set_translation_def)

text \<open>
  Claim C5: from a clock that is not negative, an update by a delta that is not negative
  leaves the clock at the sum when the sum does not exceed \<open>end\<close>, and at exactly 0
  otherwise; the clock stays non-negative. The update returns with this clock whenever
  its channel loop returns, and it does so on every clip whose channels are in order.
\<close>

theorem update_clock:
  assumes "0 \<le> current_time a" and "0 \<le> dt"
  shows "(channel_loop slerp a (animation_channels a) nodes = Inr nodes' \<longrightarrow>
            update slerp a nodes dt =
              Inr (a\<lparr>current_time :=
                     (if current_time a + dt \<le> end_time a then current_time a + dt else 0)\<rparr>,
                   nodes'))
       \<and> ((\<forall>ch \<in> set (animation_channels a). channel_ok a ch) \<longrightarrow>
            (\<exists>nodes''. update slerp a nodes dt =
              Inr (a\<lparr>current_time :=
                     (if current_time a + dt \<le> end_time a then current_time a + dt else 0)\<rparr>,
                   nodes'')))
       \<and> 0 \<le> (if current_time a + dt \<le> end_time a then current_time a + dt else 0)"
proof (intro conjI impI)
  have clock: "(if end_time a < current_time a + dt then 0 else current_time a + dt) =
      (if current_time a + dt \<le> end_time a then current_time a + dt else 0)"
    by simp
  have run: "update slerp a nodes dt =
      Inr (a\<lparr>current_time :=
             (if current_time a + dt \<le> end_time a then current_time a + dt else 0)\<rparr>, n)"
    if "channel_loop slerp a (animation_channels a) nodes = Inr n" for n
    using that clock by (simp add: update_def Let_def)
  show "update slerp a nodes dt =
      Inr (a\<lparr>current_time :=
             (if current_time a + dt \<le> end_time a then current_time a + dt else 0)\<rparr>, nodes')"
    if "channel_loop slerp a (animation_channels a) nodes = Inr nodes'"
    using that by (rule run)
  show "\<exists>nodes''. update slerp a nodes dt =
      Inr (a\<lparr>current_time :=
             (if current_time a + dt \<le> end_time a then current_time a + dt else 0)\<rparr>, nodes'')"
    if ok: "\<forall>ch \<in> set (animation_channels a). channel_ok a ch"
  proof -
    obtain n where "channel_loop slerp a (animation_channels a) nodes = Inr n"
      using channel_loop_ok [of "animation_channels a" a slerp nodes] ok by auto
    then show ?thesis using run by blast
  qed
  show "0 \<le> (if current_time a + dt \<le> end_time a then current_time a + dt else 0)"
    using assms by simp
qed

theorem update_clock_witness:
  "(\<exists>nodes'. update lerp_quat scenario_clip scenario_nodes (1 / 2) =
       Inr (scenario_clip\<lparr>current_time := 1 / 2\<rparr>, nodes'))
   \<and> (\<exists>nodes'. update lerp_quat (scenario_clip\<lparr>current_time := 1 / 2\<rparr>) scenario_nodes (6 / 10) =
       Inr (scenario_clip\<lparr>current_time := 0\<rparr>, nodes'))"
proof -
  have ok: "\<forall>ch \<in> set (animation_channels scenario_clip). channel_ok scenario_clip ch"
    "\<forall>ch \<in> set (animation_channels (scenario_clip\<lparr>current_time := 1 / 2\<rparr>)).
       channel_ok (scenario_clip\<lparr>current_time := 1 / 2\<rparr>) ch"
    by (simp_all add: channel_ok_def sampler_ok_def fixtures)
  have t: "0 \<le> current_time scenario_clip" "(0 :: real) \<le> 1 / 2"
    "0 \<le> current_time (scenario_clip\<lparr>current_time := 1 / 2\<rparr>)" "(0 :: real) \<le> 6 / 10"
    by (simp_all add: fixtures)
  have first: "\<exists>nodes'. update lerp_quat scenario_clip scenario_nodes (1 / 2) =
      Inr (scenario_clip\<lparr>current_time :=
        (if current_time scenario_clip + 1 / 2 \<le> end_time scenario_clip
         then current_time scenario_clip + 1 / 2 else 0)\<rparr>, nodes')"
    using update_clock [OF t(1,2), of lerp_quat scenario_nodes] ok(1) by blast
  have second: "\<exists>nodes'. update lerp_quat (scenario_clip\<lparr>current_time := 1 / 2\<rparr>) scenario_nodes (6 / 10) =
      Inr (scenario_clip\<lparr>current_time := 1 / 2\<rparr>\<lparr>current_time :=
        (if current_time (scenario_clip\<lparr>current_time := 1 / 2\<rparr>) + 6 / 10
            \<le> end_time (scenario_clip\<lparr>current_time := 1 / 2\<rparr>)
         then current_time (scenario_clip\<lparr>current_time := 1 / 2\<rparr>) + 6 / 10 else 0)\<rparr>, nodes')"
    using update_clock [OF t(3,4), of lerp_quat scenario_nodes] ok(2) by blast
  have c1: "(if current_time scenario_clip + 1 / 2 \<le> end_time scenario_clip
      then current_time scenario_clip + 1 / 2 else 0) = 1 / 2"
    by (simp add: fixtures)
  have c2: "scenario_clip\<lparr>current_time := 1 / 2\<rparr>\<lparr>current_time :=
        (if current_time (scenario_clip\<lparr>current_time := 1 / 2\<rparr>) + 6 / 10
            \<le> end_time (scenario_clip\<lparr>current_time := 1 / 2\<rparr>)
         then current_time (scenario_clip\<lparr>current_time := 1 / 2\<rparr>) + 6 / 10 else 0)\<rparr>
      = scenario_clip\<lparr>current_time := 0\<rparr>"
    by (simp add: fixtures)
  show ?thesis
    using first second by (simp only: c1 c2)
qed

text \<open>
  Claim C6, as amended: on a well-formed track with strictly increasing time stamps, when
  the current time is the boundary \<open>times[i+1]\<close> between the segments \<open>i\<close> and \<open>i+1\<close>, the
  update evaluates the segment \<open>i\<close> and then the segment \<open>i+1\<close>, in this order and nothing
  else; when the first evaluation does not fail, the store is left as the evaluation of
  the segment \<open>i+1\<close> alone leaves it: the later segment overwrites the earlier.
\<close>

theorem boundary_evaluates_both:
  assumes s: "read_at (animation_samplers a) (samplerIndex ch) = Inr s"
    and wf: "length (inputs s) \<le> length (outputsVec4 s)" "length (inputs s) \<le> 2 ^ 64"
    and inc: "sorted_wrt (<) (inputs s)"
    and seg: "i + 2 < length (inputs s)"
    and ct: "current_time a = inputs s ! (i + 1)"
  shows "update_channel slerp a ch nodes =
           and_then (apply_channel slerp s ch i (current_time a) nodes)
             (apply_channel slerp s ch (i + 1) (current_time a))
         \<and> (apply_channel slerp s ch i (current_time a) nodes \<noteq> Inl OutOfBounds \<longrightarrow>
              update_channel slerp a ch nodes =
                apply_channel slerp s ch (i + 1) (current_time a) nodes)"
proof -
  let ?bound = "length (inputs s) - 1"
  let ?ct = "inputs s ! (i + 1)"
  have b: "size_t (length (inputs s) + 2 ^ 64 - 1) = ?bound"
    using seg wf(2) by (intro bound_eq) auto
  have "segment_loop slerp s ch ?ct ?bound 0 nodes = segment_loop slerp s ch ?ct ?bound i nodes"
    using inc seg by (intro segment_loop_skip segment_step_before) simp_all
  also have "\<dots> = and_then (segment_step slerp s ch ?ct i nodes)
      (segment_loop slerp s ch ?ct ?bound (i + 1))"
    using seg by (intro segment_loop_step) simp
  also have "\<dots> = and_then (apply_channel slerp s ch i ?ct nodes)
      (segment_loop slerp s ch ?ct ?bound (i + 1))"
    using segment_step_upper [OF inc, of i slerp ch nodes] seg by simp
  also have "\<dots> = and_then (apply_channel slerp s ch i ?ct nodes)
      (apply_channel slerp s ch (i + 1) ?ct)"
  proof -
    have "segment_loop slerp s ch ?ct ?bound (i + 1) n = apply_channel slerp s ch (i + 1) ?ct n" for n
    proof -
      have "segment_loop slerp s ch ?ct ?bound (i + 1) n =
          and_then (segment_step slerp s ch ?ct (i + 1) n) (segment_loop slerp s ch ?ct ?bound (i + 1 + 1))"
        using seg by (intro segment_loop_step) simp
      also have "segment_step slerp s ch ?ct (i + 1) n = apply_channel slerp s ch (i + 1) ?ct n"
        using inc seg by (intro segment_step_lower) simp_all
      also have "segment_loop slerp s ch ?ct ?bound (i + 1 + 1) = Inr"
      proof
        fix m
        show "segment_loop slerp s ch ?ct ?bound (i + 1 + 1) m = Inr m"
          using inc seg by (intro segment_loop_idle segment_step_after) simp_all
      qed
      finally show ?thesis by (simp add: and_then_def split: sum.splits)
    qed
    then show ?thesis by presburger
  qed
  finally have loop: "segment_loop slerp s ch ?ct ?bound 0 nodes =
      and_then (apply_channel slerp s ch i ?ct nodes) (apply_channel slerp s ch (i + 1) ?ct)" .
  have first: "update_channel slerp a ch nodes =
      and_then (apply_channel slerp s ch i (current_time a) nodes)
        (apply_channel slerp s ch (i + 1) (current_time a))"
    using s wf(1) loop b by (simp add: update_channel_def ct)
  have second: "update_channel slerp a ch nodes = apply_channel slerp s ch (i + 1) (current_time a) nodes"
    if h: "apply_channel slerp s ch i (current_time a) nodes \<noteq> Inl OutOfBounds"
  proof -
    obtain n1 where n1: "apply_channel slerp s ch i (current_time a) nodes = Inr n1"
      using h error_is_OutOfBounds
      by (cases "apply_channel slerp s ch i (current_time a) nodes") auto
    show ?thesis
      using first n1 apply_channel_overwrite [OF n1] by simp
  qed
  show ?thesis using first second by blast
qed


theorem boundary_evaluates_both_witness:
  "update_channel lerp_quat (clip_of step_sampler scenario_channel 1) scenario_channel scenario_nodes
     = apply_channel lerp_quat step_sampler scenario_channel 1 1 scenario_nodes"
proof -
  have ok: "apply_channel lerp_quat step_sampler scenario_channel 0 1 scenario_nodes \<noteq> Inl OutOfBounds"
    by (simp add: apply_channel_def translate_def fixtures evaluation)
  have s: "read_at (animation_samplers (clip_of step_sampler scenario_channel 1))
      (samplerIndex scenario_channel) = Inr step_sampler"
    by (simp add: clip_of_def scenario_channel_def read_at_def)
  have wf: "length (inputs step_sampler) \<le> length (outputsVec4 step_sampler)"
    "length (inputs step_sampler) \<le> 2 ^ 64"
    by (simp_all add: step_sampler_def)
  have inc: "sorted_wrt (<) (inputs step_sampler)"
    by (simp add: step_sampler_def)
  have seg: "0 + 2 < length (inputs step_sampler)"
    by (simp add: step_sampler_def)
  have ct: "current_time (clip_of step_sampler scenario_channel 1) = inputs step_sampler ! (0 + 1)"
    by (simp add: clip_of_def step_sampler_def)
  have now: "current_time (clip_of step_sampler scenario_channel 1) = 1"
    by (simp add: clip_of_def)
  have ok': "apply_channel lerp_quat step_sampler scenario_channel 0
      (current_time (clip_of step_sampler scenario_channel 1)) scenario_nodes \<noteq> Inl OutOfBounds"
    using ok by (simp add: now)
  have "update_channel lerp_quat (clip_of step_sampler scenario_channel 1) scenario_channel
      scenario_nodes =
    apply_channel lerp_quat step_sampler scenario_channel (0 + 1)
      (current_time (clip_of step_sampler scenario_channel 1)) scenario_nodes"
    using boundary_evaluates_both [OF s wf inc seg ct, of lerp_quat scenario_nodes] ok'
    by blast
  then show ?thesis by (simp only: now) simp
qed

text \<open>
  Claim C6 as stated fails: at the time 1, the boundary of the segments 0 and 1 of
  \<open>step_sampler\<close>, the update leaves the translation (2,0,0) of the segment 1, where the
  segment 0 evaluates to (1,0,0).
\<close>

theorem boundary_counterexample:
  "update_channel lerp_quat (clip_of step_sampler scenario_channel 1) scenario_channel scenario_nodes
     = Inr (scenario_nodes(0 := set_translation (Vec3 2 0 0) (scenario_nodes 0)))
   \<and> translate step_sampler 0 1 (scenario_nodes 0)
     = Inr (set_translation (Vec3 1 0 0) (scenario_nodes 0))
   \<and> set_translation (Vec3 2 0 0) (scenario_nodes 0) \<noteq> set_translation (Vec3 1 0 0) (scenario_nodes 0)"
  by (simp add: update_channel_def fixtures segment_loop.simps segment_step_def apply_channel_def
      translate_def evaluation set_translation_def)

text \<open>
  Claim C7, as amended: in LINEAR mode the segment fraction is
  \<open>max(0, time - times[i]) / (times[i+1] - times[i])\<close> and is never negative; in CUBIC mode
  the fraction is \<open>(time - times[i]) / (times[i+1] - times[i])\<close>, not clamped, which is the
  clamped fraction whenever \<open>time \<ge> times[i]\<close>; the per-tick update evaluates no segment
  with \<open>time < times[i]\<close>. (STEP mode computes no fraction.)
\<close>

theorem fraction_clamping:
  "(read_at (inputs s) index = Inr t0 \<and> read_at (inputs s) (size_t (index + 1)) = Inr t1 \<and> t0 < t1
      \<longrightarrow> linear_u s index time = Inr (max 0 (time - t0) / (t1 - t0))
          \<and> 0 \<le> max 0 (time - t0) / (t1 - t0))
   \<and> (read_at (inputs s) index = Inr t0 \<and> t0 \<le> time
      \<longrightarrow> cubicSplineInterpolation s index time stride =
            clamped_cubicSplineInterpolation s index time stride)
   \<and> (read_at (inputs s) i = Inr t0 \<and> ct < t0
      \<longrightarrow> segment_step slerp s ch ct i nodes = Inr nodes)"
proof (intro conjI impI)
  assume h: "read_at (inputs s) index = Inr t0 \<and> read_at (inputs s) (size_t (index + 1)) = Inr t1 \<and> t0 < t1"
  then show "linear_u s index time = Inr (max 0 (time - t0) / (t1 - t0))"
    by (simp add: linear_u_def)
  show "0 \<le> max 0 (time - t0) / (t1 - t0)"
    using h by simp
next
  assume h: "read_at (inputs s) index = Inr t0 \<and> t0 \<le> time"
  then have "max 0 (time - t0) = time - t0" by simp
  then show "cubicSplineInterpolation s index time stride =
      clamped_cubicSplineInterpolation s index time stride"
    using h
    by (cases "read_at (inputs s) (size_t (index + 1))")
      (simp_all add: cubicSplineInterpolation_def clamped_cubicSplineInterpolation_def Let_def)
next
  assume "read_at (inputs s) i = Inr t0 \<and> ct < t0"
  then show "segment_step slerp s ch ct i nodes = Inr nodes"
    by (simp add: segment_step_def)
qed

theorem fraction_clamping_witness:
  "linear_u scenario_sampler 0 (- 1) = Inr 0
   \<and> cubicSplineInterpolation value_sampler 0 (1 / 2) 3 =
       clamped_cubicSplineInterpolation value_sampler 0 (1 / 2) 3
   \<and> segment_step lerp_quat scenario_sampler scenario_channel (- 1) 0 scenario_nodes =
       Inr scenario_nodes"
proof -
  have a: "read_at (inputs scenario_sampler) 0 = Inr 0"
    "read_at (inputs scenario_sampler) (size_t (0 + 1)) = Inr 1"
    by (simp_all add: scenario_sampler_def evaluation)
  have b: "read_at (inputs value_sampler) 0 = Inr 0"
    by (simp add: value_sampler_def evaluation)
  show ?thesis
    using fraction_clamping [where s = scenario_sampler and index = 0 and ?t0.0 = 0 and ?t1.0 = 1
          and time = "- 1" and i = 0 and ct = "- 1" and slerp = lerp_quat and ch = scenario_channel
          and nodes = scenario_nodes]
      fraction_clamping [where s = value_sampler and index = 0 and ?t0.0 = 0 and time = "1 / 2"
          and stride = 3]
      a b
    by simp
qed

text \<open>
  Claim C7 as stated fails in CUBIC mode: at the time \<open>-1\<close>, before the first time stamp of
  \<open>value_sampler\<close>, the code's fraction is \<open>-1\<close> and the result is (-4,0,0); with the clamped
  fraction the result would be the value (1,0,0) of keyframe 0.
\<close>

theorem cubic_fraction_counterexample:
  "cubicSplineInterpolation value_sampler 0 (- 1) 3 = Inr [- 4, 0, 0]
   \<and> clamped_cubicSplineInterpolation value_sampler 0 (- 1) 3 = Inr [1, 0, 0]"
  by (simp add: cubicSplineInterpolation_def clamped_cubicSplineInterpolation_def cubic_loop_def
      cubic_pt_def value_sampler_def evaluation upt_3)

text \<open>
  Claim C8, as amended: a newly constructed clip has \<open>start\<close> initialised to the largest
  finite \<^verbatim>\<open>float\<close>, \<^verbatim>\<open>std::numeric_limits<float>::max()\<close>, and \<open>current_time\<close> initialised
  to 0.
\<close>

theorem fresh_clip:
  "start (Animation_init n) = FLT_MAX \<and> current_time (Animation_init n) = 0"
  by (simp add: Animation_init_def)

text \<open>
  Claim C8 as stated fails: the initial \<open>end\<close> is \<^verbatim>\<open>std::numeric_limits<float>::min()\<close>, a
  positive number, and the initial \<open>start\<close> is a number below \<open>2^128\<close>; neither is infinite.
\<close>

theorem fresh_clip_counterexample:
  "0 < end_time (Animation_init ''clip'') \<and> start (Animation_init ''clip'') < 2 ^ 128"
  by (simp add: Animation_init_def FLT_MIN_def FLT_MAX_def)

lemma vec3_of_pt_map: "vec3_of_pt (map f [0..<3]) = Vec3 (f 0) (f 1) (f 2)"
  by (simp add: vec3_of_pt_def upt_3)

lemma upt_4: "[0..<4] = [0, 1, 2, 3]"
  by (simp add: upt_rec)

lemma quat_of_pt_map: "quat_of_pt (map f [0..<4]) = Quat (f 0) (f 1) (f 2) (f 3)"
  by (simp add: quat_of_pt_def upt_4)

lemma normalize_quat_unit: "quat_length q = 1 \<Longrightarrow> normalize_quat q = q"
  by (cases q) (simp add: Let_def)

text \<open>
  Claim C9, as amended: on a segment with \<open>times[i] < times[i+1]\<close> of a well-formed track,
  a translation or scale channel evaluated at the time \<open>times[i]\<close> writes \<open>values[i]\<close> and at
  the time \<open>times[i+1]\<close> writes \<open>values[i+1]\<close>, in LINEAR and in CUBIC mode, and
  \<^verbatim>\<open>cubicSplineInterpolation\<close> returns these values for every stride; in CUBIC mode this
  needs the floats of the two keyframes to lie below the index \<open>2^32\<close> of \<open>outputs\<close>, the
  index arithmetic being \<^verbatim>\<open>uint32_t\<close>. A rotation channel writes the normalised quaternion:
  in CUBIC mode the normalised value, in LINEAR mode the normalised result of slerp at the
  fraction 0 or 1; a quaternion of magnitude 1 is its own normalisation.
\<close>

theorem boundary_exactness:
  assumes "index + 1 < length (inputs s)" and "inputs s ! index < inputs s ! (index + 1)"
    and "length (inputs s) \<le> 2 ^ 64"
  shows "(interpolation s = LINEAR \<and> length (inputs s) \<le> length (outputsVec4 s) \<longrightarrow>
            translate s index (inputs s ! index) tr =
              Inr (set_translation (vec3_of_vec4 (outputsVec4 s ! index)) tr)
          \<and> translate s index (inputs s ! (index + 1)) tr =
              Inr (set_translation (vec3_of_vec4 (outputsVec4 s ! (index + 1))) tr)
          \<and> scale s index (inputs s ! index) tr =
              Inr (set_scale (vec3_of_vec4 (outputsVec4 s ! index)) tr)
          \<and> scale s index (inputs s ! (index + 1)) tr =
              Inr (set_scale (vec3_of_vec4 (outputsVec4 s ! (index + 1))) tr)
          \<and> rotate_sampler slerp s index (inputs s ! index) tr =
              Inr (set_rotation (normalize_quat
                (slerp (quat_of_vec4 (outputsVec4 s ! index))
                   (quat_of_vec4 (outputsVec4 s ! (index + 1))) 0)) tr)
          \<and> rotate_sampler slerp s index (inputs s ! (index + 1)) tr =
              Inr (set_rotation (normalize_quat
                (slerp (quat_of_vec4 (outputsVec4 s ! index))
                   (quat_of_vec4 (outputsVec4 s ! (index + 1))) 1)) tr))
       \<and> (stride \<le> 4 \<and> 3 * stride * length (inputs s) \<le> length (outputs s)
            \<and> 3 * stride * (index + 2) \<le> 2 ^ 32 \<longrightarrow>
            cubicSplineInterpolation s index (inputs s ! index) stride =
              Inr (map (spec_value (outputs s) stride index) [0..<stride])
          \<and> cubicSplineInterpolation s index (inputs s ! (index + 1)) stride =
              Inr (map (spec_value (outputs s) stride (index + 1)) [0..<stride]))
       \<and> (interpolation s = CUBICSPLINE \<and> 3 * 3 * length (inputs s) \<le> length (outputs s)
            \<and> 3 * 3 * (index + 2) \<le> 2 ^ 32 \<longrightarrow>
            translate s index (inputs s ! index) tr =
              Inr (set_translation (spec_vec3 (outputs s) index) tr)
          \<and> translate s index (inputs s ! (index + 1)) tr =
              Inr (set_translation (spec_vec3 (outputs s) (index + 1)) tr)
          \<and> scale s index (inputs s ! index) tr =
              Inr (set_scale (spec_vec3 (outputs s) index) tr)
          \<and> scale s index (inputs s ! (index + 1)) tr =
              Inr (set_scale (spec_vec3 (outputs s) (index + 1)) tr))
       \<and> (interpolation s = CUBICSPLINE \<and> 3 * 4 * length (inputs s) \<le> length (outputs s)
            \<and> 3 * 4 * (index + 2) \<le> 2 ^ 32 \<longrightarrow>
            rotate_sampler slerp s index (inputs s ! index) tr =
              Inr (set_rotation (normalize_quat (spec_quat (outputs s) index)) tr)
          \<and> rotate_sampler slerp s index (inputs s ! (index + 1)) tr =
              Inr (set_rotation (normalize_quat (spec_quat (outputs s) (index + 1))) tr))
       \<and> (quat_length q = 1 \<longrightarrow> normalize_quat q = q)"
proof (intro conjI impI)
  assume h: "interpolation s = LINEAR \<and> length (inputs s) \<le> length (outputsVec4 s)"
  have sz: "size_t (index + 1) = index + 1"
    using assms(1,3) by (intro size_t_small) simp
  have rd: "read_at (outputsVec4 s) index = Inr (outputsVec4 s ! index)"
    "read_at (outputsVec4 s) (index + 1) = Inr (outputsVec4 s ! (index + 1))"
    using assms(1) h by (simp_all add: read_at_def)
  note lo = linear_u_lower [OF assms(1,3)]
  note hi = linear_u_upper [OF assms(1,3,2)]
  show "translate s index (inputs s ! index) tr =
      Inr (set_translation (vec3_of_vec4 (outputsVec4 s ! index)) tr)"
    using h by (simp add: translate_def lo sz rd mix_0 del: One_nat_def add_Suc_right)
  show "translate s index (inputs s ! (index + 1)) tr =
      Inr (set_translation (vec3_of_vec4 (outputsVec4 s ! (index + 1))) tr)"
    using h by (simp add: translate_def hi sz rd mix_1 del: One_nat_def add_Suc_right)
  show "scale s index (inputs s ! index) tr =
      Inr (set_scale (vec3_of_vec4 (outputsVec4 s ! index)) tr)"
    using h by (simp add: scale_def lo sz rd mix_0 del: One_nat_def add_Suc_right)
  show "scale s index (inputs s ! (index + 1)) tr =
      Inr (set_scale (vec3_of_vec4 (outputsVec4 s ! (index + 1))) tr)"
    using h by (simp add: scale_def hi sz rd mix_1 del: One_nat_def add_Suc_right)
  show "rotate_sampler slerp s index (inputs s ! index) tr =
      Inr (set_rotation (normalize_quat
        (slerp (quat_of_vec4 (outputsVec4 s ! index))
           (quat_of_vec4 (outputsVec4 s ! (index + 1))) 0)) tr)"
    using h by (simp add: rotate_sampler_def lo sz rd Let_def del: One_nat_def add_Suc_right)
  show "rotate_sampler slerp s index (inputs s ! (index + 1)) tr =
      Inr (set_rotation (normalize_quat
        (slerp (quat_of_vec4 (outputsVec4 s ! index))
           (quat_of_vec4 (outputsVec4 s ! (index + 1))) 1)) tr)"
    using h by (simp add: rotate_sampler_def hi sz rd Let_def del: One_nat_def add_Suc_right)
next
  assume h: "stride \<le> 4 \<and> 3 * stride * length (inputs s) \<le> length (outputs s)
      \<and> 3 * stride * (index + 2) \<le> 2 ^ 32"
  show "cubicSplineInterpolation s index (inputs s ! index) stride =
      Inr (map (spec_value (outputs s) stride index) [0..<stride])"
    using h assms by (intro cubic_boundary(1)) simp_all
  show "cubicSplineInterpolation s index (inputs s ! (index + 1)) stride =
      Inr (map (spec_value (outputs s) stride (index + 1)) [0..<stride])"
    using h assms by (intro cubic_boundary(2)) simp_all
next
  assume h: "interpolation s = CUBICSPLINE \<and> 3 * 3 * length (inputs s) \<le> length (outputs s)
      \<and> 3 * 3 * (index + 2) \<le> 2 ^ 32"
  have lo: "cubicSplineInterpolation s index (inputs s ! index) 3 =
      Inr (map (spec_value (outputs s) 3 index) [0..<3])"
    using h assms by (intro cubic_boundary(1)) simp_all
  have hi: "cubicSplineInterpolation s index (inputs s ! (index + 1)) 3 =
      Inr (map (spec_value (outputs s) 3 (index + 1)) [0..<3])"
    using h assms by (intro cubic_boundary(2)) simp_all
  show "translate s index (inputs s ! index) tr =
      Inr (set_translation (spec_vec3 (outputs s) index) tr)"
    using h
    by (simp only: translate_def lo InterpolationType.case and_then_Inr vec3_of_pt_map spec_vec3_def)
  show "translate s index (inputs s ! (index + 1)) tr =
      Inr (set_translation (spec_vec3 (outputs s) (index + 1)) tr)"
    using h
    by (simp only: translate_def hi InterpolationType.case and_then_Inr vec3_of_pt_map spec_vec3_def)
  show "scale s index (inputs s ! index) tr =
      Inr (set_scale (spec_vec3 (outputs s) index) tr)"
    using h
    by (simp only: scale_def lo InterpolationType.case and_then_Inr vec3_of_pt_map spec_vec3_def)
  show "scale s index (inputs s ! (index + 1)) tr =
      Inr (set_scale (spec_vec3 (outputs s) (index + 1)) tr)"
    using h
    by (simp only: scale_def hi InterpolationType.case and_then_Inr vec3_of_pt_map spec_vec3_def)
next
  assume h: "interpolation s = CUBICSPLINE \<and> 3 * 4 * length (inputs s) \<le> length (outputs s)
      \<and> 3 * 4 * (index + 2) \<le> 2 ^ 32"
  have lo: "cubicSplineInterpolation s index (inputs s ! index) 4 =
      Inr (map (spec_value (outputs s) 4 index) [0..<4])"
    using h assms by (intro cubic_boundary(1)) simp_all
  have hi: "cubicSplineInterpolation s index (inputs s ! (index + 1)) 4 =
      Inr (map (spec_value (outputs s) 4 (index + 1)) [0..<4])"
    using h assms by (intro cubic_boundary(2)) simp_all
  show "rotate_sampler slerp s index (inputs s ! index) tr =
      Inr (set_rotation (normalize_quat (spec_quat (outputs s) index)) tr)"
    using h
    by (simp only: rotate_sampler_def lo InterpolationType.case and_then_Inr quat_of_pt_map
        spec_quat_def)
  show "rotate_sampler slerp s index (inputs s ! (index + 1)) tr =
      Inr (set_rotation (normalize_quat (spec_quat (outputs s) (index + 1))) tr)"
    using h
    by (simp only: rotate_sampler_def hi InterpolationType.case and_then_Inr quat_of_pt_map
        spec_quat_def)
next
  assume "quat_length q = 1"
  then show "normalize_quat q = q" by (rule normalize_quat_unit)
qed

theorem boundary_exactness_witness:
  "translate scenario_sampler 0 0 (scenario_nodes 0) =
     Inr (set_translation (Vec3 0 0 0) (scenario_nodes 0))
   \<and> translate scenario_sampler 0 1 (scenario_nodes 0) =
     Inr (set_translation (Vec3 10 0 0) (scenario_nodes 0))
   \<and> cubicSplineInterpolation value_sampler 0 0 3 = Inr [1, 0, 0]
   \<and> cubicSplineInterpolation value_sampler 0 1 3 = Inr [0, 0, 0]
   \<and> rotate_sampler lerp_quat cubic_rotation_sampler 0 1 (scenario_nodes 0) =
     Inr (set_rotation (Quat 0 0 0 1) (scenario_nodes 0))"
proof -
  have a: "0 + 1 < length (inputs scenario_sampler)"
    "inputs scenario_sampler ! 0 < inputs scenario_sampler ! (0 + 1)"
    "length (inputs scenario_sampler) \<le> 2 ^ 64"
    by (simp_all add: scenario_sampler_def)
  have b: "0 + 1 < length (inputs value_sampler)"
    "inputs value_sampler ! 0 < inputs value_sampler ! (0 + 1)"
    "length (inputs value_sampler) \<le> 2 ^ 64"
    by (simp_all add: value_sampler_def)
  have c: "0 + 1 < length (inputs cubic_rotation_sampler)"
    "inputs cubic_rotation_sampler ! 0 < inputs cubic_rotation_sampler ! (0 + 1)"
    "length (inputs cubic_rotation_sampler) \<le> 2 ^ 64"
    by (simp_all add: cubic_rotation_sampler_def)
  show ?thesis
    using boundary_exactness [OF a, of "scenario_nodes 0" lerp_quat 3 "Quat 0 0 0 1"]
      boundary_exactness [OF b, of "scenario_nodes 0" lerp_quat 3 "Quat 0 0 0 1"]
      boundary_exactness [OF c, of "scenario_nodes 0" lerp_quat 4 "Quat 0 0 0 1"]
    by (simp add: scenario_sampler_def value_sampler_def cubic_rotation_sampler_def spec_value_def
        spec_quat_def upt_3)
qed

text \<open>
  Claim C9 as stated fails on rotation tracks and on very long cubic tracks. At the time
  \<open>times[0]\<close> the CUBIC rotation track \<open>cubic_rotation_sampler\<close> and the LINEAR rotation track
  \<open>rotation_sampler\<close>, whose first value is (0,0,0,2), write the quaternion (0,0,0,1). On
  \<open>long_sampler\<close>, a well-formed track with strictly increasing time stamps, the index of
  keyframe 477218589 is truncated to 32 bits: at the time of this keyframe the code returns
  (0,0,0), read from the start of \<open>outputs\<close>, where the value of the keyframe is (1,1,1).
\<close>

theorem boundary_exactness_counterexample:
  "rotate_sampler lerp_quat cubic_rotation_sampler 0 (inputs cubic_rotation_sampler ! 0)
       (scenario_nodes 0) =
     Inr (set_rotation (Quat 0 0 0 1) (scenario_nodes 0))
   \<and> spec_quat (outputs cubic_rotation_sampler) 0 = Quat 0 0 0 2
   \<and> rotate_sampler lerp_quat rotation_sampler 0 (inputs rotation_sampler ! 0) (scenario_nodes 0) =
     Inr (set_rotation (Quat 0 0 0 1) (scenario_nodes 0))
   \<and> quat_of_vec4 (outputsVec4 rotation_sampler ! 0) = Quat 0 0 0 2
   \<and> sorted_wrt (<) (inputs long_sampler)
   \<and> 3 * 3 * length (inputs long_sampler) = length (outputs long_sampler)
   \<and> cubicSplineInterpolation long_sampler 477218589 (inputs long_sampler ! 477218589) 3 =
     Inr [0, 0, 0]
   \<and> map (spec_value (outputs long_sampler) 3 477218589) [0..<3] = [1, 1, 1]"
proof (intro conjI)
  show "rotate_sampler lerp_quat cubic_rotation_sampler 0 (inputs cubic_rotation_sampler ! 0)
       (scenario_nodes 0) =
     Inr (set_rotation (Quat 0 0 0 1) (scenario_nodes 0))"
    by (simp add: rotate_sampler_def cubicSplineInterpolation_def cubic_loop_def cubic_pt_def
        cubic_rotation_sampler_def evaluation upt_4 quat_of_pt_def)
  show "spec_quat (outputs cubic_rotation_sampler) 0 = Quat 0 0 0 2"
    by (simp add: spec_quat_def spec_value_def cubic_rotation_sampler_def)
  show "rotate_sampler lerp_quat rotation_sampler 0 (inputs rotation_sampler ! 0) (scenario_nodes 0) =
     Inr (set_rotation (Quat 0 0 0 1) (scenario_nodes 0))"
    by (simp add: rotate_sampler_def linear_u_def rotation_sampler_def evaluation mix1_def)
  show "quat_of_vec4 (outputsVec4 rotation_sampler ! 0) = Quat 0 0 0 2"
    by (simp add: rotation_sampler_def)
  show "sorted_wrt (<) (inputs long_sampler)"
    by (simp add: long_sampler_def sorted_wrt_map)
  show "3 * 3 * length (inputs long_sampler) = length (outputs long_sampler)"
    by (simp add: long_sampler_def)
  have t: "inputs long_sampler ! 477218589 = 477218589"
    "read_at (inputs long_sampler) 477218589 = Inr 477218589"
    "read_at (inputs long_sampler) 477218590 = Inr 477218590"
    by (simp_all add: long_sampler_def read_at_def)
  have low: "read_at (outputs long_sampler) k = Inr 0" if "k < 4294967296" for k
    using that by (simp add: long_sampler_def read_at_def nth_append)
  have pt: "cubic_pt (outputs long_sampler) 1 0 5 14 3 i = Inr 0" if "i < 3" for i
    using that by (simp add: cubic_pt_def Let_def uint32_t_def low)
  have "cubic_loop (outputs long_sampler) 1 0 5 14 3 = Inr [0, 0, 0]"
    by (simp add: cubic_loop_def upt_3 pt)
  then show "cubicSplineInterpolation long_sampler 477218589 (inputs long_sampler ! 477218589) 3 =
     Inr [0, 0, 0]"
    by (simp add: cubicSplineInterpolation_def t size_t_def uint32_t_def Let_def)
  show "map (spec_value (outputs long_sampler) 3 477218589) [0..<3] = [1, 1, 1]"
    by (simp add: spec_value_def long_sampler_def upt_3 nth_append)
qed

text \<open>
  Claim C10, as amended: the per-tick update reads its vectors only in bounds when every
  channel's \<open>samplerIndex\<close> is a valid index, every referenced sampler has a non-empty
  \<open>inputs\<close>, and every referenced CUBICSPLINE sampler that the guard lets through holds
  \<open>3 * stride * inputs.size()\<close> floats in \<open>outputs\<close> (stride 4 for a rotation channel, 3
  otherwise). A channel whose sampler has empty \<open>inputs\<close> and \<open>outputsVec4\<close> is not skipped
  by the guard; the loop bound wraps and the update reads out of bounds.
\<close>

theorem update_in_bounds:
  "((\<forall>ch \<in> set (animation_channels a). channel_ok a ch) \<longrightarrow>
      (\<exists>a' nodes'. update slerp a nodes delta_time = Inr (a', nodes')))
   \<and> (ch \<in> set (animation_channels a) \<and> samplerIndex ch < length (animation_samplers a)
        \<and> inputs (animation_samplers a ! samplerIndex ch) = []
        \<and> outputsVec4 (animation_samplers a ! samplerIndex ch) = [] \<longrightarrow>
      update slerp a nodes delta_time = Inl OutOfBounds)"
proof (intro conjI impI)
  assume "\<forall>ch \<in> set (animation_channels a). channel_ok a ch"
  then obtain n' where "channel_loop slerp a (animation_channels a) nodes = Inr n'"
    using channel_loop_ok [of "animation_channels a" a slerp nodes] by auto
  then show "\<exists>a' nodes'. update slerp a nodes delta_time = Inr (a', nodes')"
    by (simp add: update_def Let_def)
next
  assume h: "ch \<in> set (animation_channels a) \<and> samplerIndex ch < length (animation_samplers a)
        \<and> inputs (animation_samplers a ! samplerIndex ch) = []
        \<and> outputsVec4 (animation_samplers a ! samplerIndex ch) = []"
  then have "channel_loop slerp a (animation_channels a) nodes = Inl OutOfBounds"
    using channel_loop_fails [of ch "animation_channels a" slerp a nodes] update_channel_empty [of ch a slerp]
    by simp
  then show "update slerp a nodes delta_time = Inl OutOfBounds"
    by (simp add: update_def)
qed

theorem update_in_bounds_witness:
  "(\<exists>a' nodes'. update lerp_quat scenario_clip scenario_nodes (1 / 2) = Inr (a', nodes'))
   \<and> update lerp_quat (clip_of empty_sampler scenario_channel 0) scenario_nodes (1 / 2) =
       Inl OutOfBounds"
proof -
  have ok: "\<forall>ch \<in> set (animation_channels scenario_clip). channel_ok scenario_clip ch"
    by (simp add: channel_ok_def sampler_ok_def fixtures)
  have empty: "scenario_channel \<in> set (animation_channels (clip_of empty_sampler scenario_channel 0))
      \<and> samplerIndex scenario_channel < length (animation_samplers (clip_of empty_sampler scenario_channel 0))
      \<and> inputs (animation_samplers (clip_of empty_sampler scenario_channel 0) ! samplerIndex scenario_channel) = []
      \<and> outputsVec4 (animation_samplers (clip_of empty_sampler scenario_channel 0) ! samplerIndex scenario_channel) = []"
    by (simp add: fixtures)
  show ?thesis
    using update_in_bounds [of scenario_clip lerp_quat scenario_nodes "1 / 2"] ok
      update_in_bounds [of "clip_of empty_sampler scenario_channel 0" lerp_quat scenario_nodes
        "1 / 2" scenario_channel] empty
    by blast
qed

text \<open>
  Claim C10 as stated fails: the channel of the clip below has a valid \<open>samplerIndex\<close> and
  its sampler \<open>short_outputs_sampler\<close> has two time stamps, yet the update reads the empty
  \<open>outputs\<close> of this cubic sampler out of bounds.
\<close>

theorem short_outputs_counterexample:
  "animation_channels (clip_of short_outputs_sampler scenario_channel 0) = [scenario_channel]
   \<and> samplerIndex scenario_channel
       < length (animation_samplers (clip_of short_outputs_sampler scenario_channel 0))
   \<and> inputs (animation_samplers (clip_of short_outputs_sampler scenario_channel 0)
       ! samplerIndex scenario_channel) = [0, 1]
   \<and> update lerp_quat (clip_of short_outputs_sampler scenario_channel 0) scenario_nodes (1 / 2) =
       Inl OutOfBounds"
  by (simp add: update_def update_channel_def fixtures segment_loop.simps segment_step_def
      apply_channel_def translate_def cubicSplineInterpolation_def cubic_loop_def cubic_pt_def
      evaluation upt_3)

end
